theory Spec2Isabelle
  imports Main "HOL-Library.Word"
begin

section \<open>The data manager service of Amass (services/datamgmtsrv.go)\<close>

text \<open>
  A shallow embedding of \<^verbatim>\<open>DataManagerService\<close>: the admission loop of
  \<^verbatim>\<open>OnDNSRequest\<close>, the record dispatcher \<^verbatim>\<open>processDNSRequest\<close>, the nine record
  handlers, the text miner \<^verbatim>\<open>findNamesAndAddresses\<close> and \<^verbatim>\<open>OnASNRequest\<close>.

  Strings are byte sequences (\<^typ>\<open>string\<close>). The functions of Go's \<^verbatim>\<open>strings\<close>
  package are modelled on ASCII text, the alphabet of DNS names: \<^verbatim>\<open>ToLower\<close> maps
  the bytes \<^verbatim>\<open>A\<close>..\<^verbatim>\<open>Z\<close> and leaves every other byte alone, \<^verbatim>\<open>TrimSpace\<close> knows the six
  ASCII white space bytes.
\<close>

subsection \<open>Go's strings package\<close>

definition toLowerChar :: "char \<Rightarrow> char" where
  "toLowerChar c =
     (let n = (of_char c :: nat) in if 65 \<le> n \<and> n \<le> 90 then char_of (n + 32) else c)"

definition ToLower :: "string \<Rightarrow> string" where
  "ToLower s = map toLowerChar s"

text \<open>\<^verbatim>\<open>strings.Trim(s, cutset)\<close>: all leading and trailing bytes of the cutset go.\<close>

definition Trim :: "string \<Rightarrow> string \<Rightarrow> string" where
  "Trim s cutset =
     rev (dropWhile (\<lambda>c. c \<in> set cutset) (rev (dropWhile (\<lambda>c. c \<in> set cutset) s)))"

definition isSpace :: "char \<Rightarrow> bool" where
  "isSpace c = (c \<in> set [CHR 0x09, CHR 0x0A, CHR 0x0B, CHR 0x0C, CHR 0x0D, CHR 0x20])"

definition TrimSpace :: "string \<Rightarrow> string" where
  "TrimSpace s = rev (dropWhile isSpace (rev (dropWhile isSpace s)))"

text \<open>
  \<^verbatim>\<open>strings.Split(s, sep)\<close> for a one-byte separator: the fields between the separators,
  in order; a string without separator (the empty one too) is its own single field.
\<close>

fun Split :: "string \<Rightarrow> char \<Rightarrow> string list" where
  "Split [] sep = [[]]"
| "Split (c # cs) sep =
     (if c = sep then [] # Split cs sep
      else (case Split cs sep of
              [] \<Rightarrow> [[c]]
            | p # ps \<Rightarrow> (c # p) # ps))"

subsection \<open>Requests, records and events\<close>

text \<open>Modelled from the spec: the tags of the requests package, which is not part of the
  sources at hand (\<open>tag: enum{DNS,...}\<close>). \<^verbatim>\<open>requests.DNS\<close> is the one the service names.\<close>

datatype tag = DNS | OtherTag string

definition requests_DNS :: tag where
  "requests_DNS = DNS"

text \<open>
  The requests of the requests package, with the fields that the service reads and
  writes. \<^verbatim>\<open>requests.DNSAnswer\<close> is one resource record; the source converts its type with
  \<^verbatim>\<open>uint16(r.Type)\<close>, so the field is a wider integer.
\<close>

record DNSAnswer =
  rrName :: string
  rrType :: int
  rrData :: string

record DNSRequest =
  reqName :: string
  reqDomain :: string
  reqRecords :: "DNSAnswer list"
  reqTag :: tag
  reqSource :: string

record AddrRequest =
  addrAddress :: string
  addrDomain :: string
  addrTag :: tag
  addrSource :: string

record ASNRequest =
  asnASN :: int
  asnAddress :: string
  asnPrefix :: string
  asnDescription :: string
  asnTag :: tag
  asnSource :: string

type_synonym uint16 = "16 word"

definition uint16 :: "int \<Rightarrow> uint16" where
  "uint16 n = word_of_int n"

text \<open>The record types of \<^verbatim>\<open>github.com/miekg/dns\<close> that the dispatcher knows.\<close>

definition TypeA :: uint16 where "TypeA = 1"
definition TypeNS :: uint16 where "TypeNS = 2"
definition TypeCNAME :: uint16 where "TypeCNAME = 5"
definition TypePTR :: uint16 where "TypePTR = 12"
definition TypeMX :: uint16 where "TypeMX = 15"
definition TypeTXT :: uint16 where "TypeTXT = 16"
definition TypeAAAA :: uint16 where "TypeAAAA = 28"
definition TypeSRV :: uint16 where "TypeSRV = 33"
definition TypeSPF :: uint16 where "TypeSPF = 99"

datatype topic = SetActiveTopic | NewNameTopic | NewAddrTopic | LogTopic

datatype priority = PriorityCritical | PriorityHigh

datatype payload = PString string | PName DNSRequest | PAddr AddrRequest

type_synonym publication = "topic \<times> priority \<times> payload"

subsection \<open>The invocation context\<close>

text \<open>
  \<^verbatim>\<open>ctx.Value(key).(*T)\<close> is a type assertion without the comma-ok form. \<^verbatim>\<open>ctx.Value\<close>
  yields the nil interface when the context holds no value for the key, and the
  assertion of a nil interface to a pointer type panics; it yields a nil pointer only
  when a nil \<^verbatim>\<open>*T\<close> was stored under the key. The two are different values here.
\<close>

datatype 'a ctxval = NoValue | NilPtr | Ptr 'a

text \<open>\<^verbatim>\<open>config.Config\<close>, as far as the service uses it: the run identifier and the two
  scope queries.\<close>

record Config =
  UUID :: string
  WhichDomain :: "string \<Rightarrow> string"
  IsDomainInScope :: "string \<Rightarrow> bool"

record Context =
  ContextConfig :: "Config ctxval"
  ContextEventBus :: "unit ctxval"

text \<open>A call returns, or it panics: nothing recovers a panic in this service, so the
  process ends there.\<close>

datatype outcome = Returned | Panicked

datatype error = Error string

text \<open>The calls of the graph database interface, with their arguments.\<close>

datatype fact =
    InsertCNAME string string string tag string
  | InsertA string string string tag string
  | InsertAAAA string string string tag string
  | InsertPTR string string string tag string
  | InsertSRV string string string string tag string
  | InsertNS string string string tag string
  | InsertMX string string string tag string
  | InsertInfrastructure int string string string string tag string

text \<open>
  What the service calls and the file does not define: \<^verbatim>\<open>resolvers.RemoveLastDot\<close>,
  \<^verbatim>\<open>publicsuffix.EffectiveTLDPlusOne\<close>, the matches of the two regular expressions
  (\<^verbatim>\<open>net.IPv4RE\<close> and \<^verbatim>\<open>amassdns.AnySubdomainRegex()\<close>) and the graph databases
  (an insert answers with an error or with none and changes the database; \<^verbatim>\<open>%s\<close> prints
  a database through \<open>GraphString\<close>).
\<close>

record 'g env =
  RemoveLastDot :: "string \<Rightarrow> string"
  EffectiveTLDPlusOne :: "string \<Rightarrow> error + string"
  IPv4Matches :: "string \<Rightarrow> string list"
  SubdomainMatches :: "string \<Rightarrow> string list"
  Insert :: "fact \<Rightarrow> 'g \<Rightarrow> error option \<times> 'g"
  GraphString :: "'g \<Rightarrow> string"

text \<open>The service: \<^verbatim>\<open>String()\<close> of the base service answers with its name.\<close>

record DataManagerService =
  ServiceName :: string

text \<open>
  The state outside the service: what was published on the bus (in order), the graph
  databases of the system, and the number of \<^verbatim>\<open>Release(1)\<close> calls on \<^verbatim>\<open>maxRequests\<close>.
\<close>

record 'g world =
  published :: "publication list"
  sinks :: "'g list"
  releases :: nat

definition Publish :: "topic \<Rightarrow> priority \<Rightarrow> payload \<Rightarrow> 'g world \<Rightarrow> 'g world" where
  "Publish t p x w = w\<lparr>published := published w @ [(t, p, x)]\<rparr>"

definition setActive :: "DataManagerService \<Rightarrow> 'g world \<Rightarrow> 'g world" where
  "setActive dms w = Publish SetActiveTopic PriorityCritical (PString (ServiceName dms)) w"

subsection \<open>Dependencies from the context\<close>

text \<open>
  The opening of the handlers:
  \<^verbatim>\<open>cfg := ctx.Value(requests.ContextConfig).(*config.Config)\<close>,
  \<^verbatim>\<open>bus := ctx.Value(requests.ContextEventBus).(*eventbus.EventBus)\<close>,
  \<^verbatim>\<open>if cfg == nil || bus == nil { return }\<close>. Both assertions run before the test.
\<close>

definition withConfigAndBus ::
  "Context \<Rightarrow> 'g world \<Rightarrow> (Config \<Rightarrow> outcome \<times> 'g world) \<Rightarrow> outcome \<times> 'g world" where
  "withConfigAndBus ctx w body =
     (case ContextConfig ctx of
        NoValue \<Rightarrow> (Panicked, w)
      | NilPtr \<Rightarrow>
          (case ContextEventBus ctx of
             NoValue \<Rightarrow> (Panicked, w)
           | NilPtr \<Rightarrow> (Returned, w)
           | Ptr bus \<Rightarrow> (Returned, w))
      | Ptr cfg \<Rightarrow>
          (case ContextEventBus ctx of
             NoValue \<Rightarrow> (Panicked, w)
           | NilPtr \<Rightarrow> (Returned, w)
           | Ptr bus \<Rightarrow> body cfg))"

subsection \<open>The loop over the graph databases\<close>

definition errString :: "error \<Rightarrow> string" where
  "errString e = (case e of Error m \<Rightarrow> m)"

text \<open>
  \<^verbatim>\<open>for _, g := range dms.System().GraphDatabases() { if err := g.InsertX(...); err != nil
  { bus.Publish(requests.LogTopic, eventbus.PriorityHigh, fmt.Sprintf(...)) } }\<close>:
  the databases after the loop and the log messages it published, in order.
\<close>

fun graphInserts ::
  "'g env \<Rightarrow> fact \<Rightarrow> ('g \<Rightarrow> error \<Rightarrow> string) \<Rightarrow> 'g list \<Rightarrow> 'g list \<times> publication list" where
  "graphInserts env f msg [] = ([], [])"
| "graphInserts env f msg (g # gs) =
     (case Insert env f g of
        (r, g') \<Rightarrow>
          (case graphInserts env f msg gs of
             (gs', logs) \<Rightarrow>
               (g' # gs',
                (case r of
                   None \<Rightarrow> logs
                 | Some err \<Rightarrow> (LogTopic, PriorityHigh, PString (msg g' err)) # logs))))"

definition insertAll ::
  "'g env \<Rightarrow> fact \<Rightarrow> ('g \<Rightarrow> error \<Rightarrow> string) \<Rightarrow> 'g world \<Rightarrow> 'g world" where
  "insertAll env f msg w =
     (case graphInserts env f msg (sinks w) of
        (gs', logs) \<Rightarrow> w\<lparr>sinks := gs', published := published w @ logs\<rparr>)"

definition failedTo :: "'g env \<Rightarrow> string \<Rightarrow> 'g \<Rightarrow> error \<Rightarrow> string" where
  "failedTo env what g err = GraphString env g @ '' failed to insert '' @ what @ '': '' @ errString err"

subsection \<open>The record handlers\<close>

definition newName :: "string \<Rightarrow> string \<Rightarrow> tag \<Rightarrow> string \<Rightarrow> payload" where
  "newName name domain t src =
     PName \<lparr>reqName = name, reqDomain = domain, reqRecords = [], reqTag = t, reqSource = src\<rparr>"

definition newAddr :: "string \<Rightarrow> string \<Rightarrow> tag \<Rightarrow> string \<Rightarrow> payload" where
  "newAddr addr domain t src =
     PAddr \<lparr>addrAddress = addr, addrDomain = domain, addrTag = t, addrSource = src\<rparr>"

text \<open>\<^verbatim>\<open>req.Records[recidx]\<close> panics when the index is out of range.\<close>

definition insertCNAME ::
  "'g env \<Rightarrow> DataManagerService \<Rightarrow> Context \<Rightarrow> DNSRequest \<Rightarrow> nat \<Rightarrow> 'g world \<Rightarrow> outcome \<times> 'g world" where
  "insertCNAME env dms ctx req recidx w =
     withConfigAndBus ctx w (\<lambda>cfg.
       if length (reqRecords req) \<le> recidx then (Panicked, w)
       else
         let target = RemoveLastDot env (rrData (reqRecords req ! recidx)) in
         if target = [] then (Returned, w)
         else
           (case EffectiveTLDPlusOne env target of
              Inl err \<Rightarrow> (Returned, w)
            | Inr d \<Rightarrow>
                let domain = ToLower d in
                if domain = [] then (Returned, w)
                else
                  (Returned,
                   setActive dms
                     (Publish NewNameTopic PriorityHigh (newName target domain requests_DNS ''DNS'')
                       (insertAll env
                          (InsertCNAME (reqName req) target (reqSource req) (reqTag req) (UUID cfg))
                          (failedTo env ''CNAME'') w)))))"

definition insertA ::
  "'g env \<Rightarrow> DataManagerService \<Rightarrow> Context \<Rightarrow> DNSRequest \<Rightarrow> nat \<Rightarrow> 'g world \<Rightarrow> outcome \<times> 'g world" where
  "insertA env dms ctx req recidx w =
     withConfigAndBus ctx w (\<lambda>cfg.
       if length (reqRecords req) \<le> recidx then (Panicked, w)
       else
         let addr = TrimSpace (rrData (reqRecords req ! recidx)) in
         if addr = [] then (Returned, w)
         else
           (Returned,
            setActive dms
              (Publish NewAddrTopic PriorityHigh (newAddr addr (reqDomain req) (reqTag req) (reqSource req))
                (insertAll env
                   (InsertA (reqName req) addr (reqSource req) (reqTag req) (UUID cfg))
                   (failedTo env ''A record'') w))))"

definition insertAAAA ::
  "'g env \<Rightarrow> DataManagerService \<Rightarrow> Context \<Rightarrow> DNSRequest \<Rightarrow> nat \<Rightarrow> 'g world \<Rightarrow> outcome \<times> 'g world" where
  "insertAAAA env dms ctx req recidx w =
     withConfigAndBus ctx w (\<lambda>cfg.
       if length (reqRecords req) \<le> recidx then (Panicked, w)
       else
         let addr = TrimSpace (rrData (reqRecords req ! recidx)) in
         if addr = [] then (Returned, w)
         else
           (Returned,
            setActive dms
              (Publish NewAddrTopic PriorityHigh (newAddr addr (reqDomain req) (reqTag req) (reqSource req))
                (insertAll env
                   (InsertAAAA (reqName req) addr (reqSource req) (reqTag req) (UUID cfg))
                   (failedTo env ''AAAA record'') w))))"

definition insertPTR ::
  "'g env \<Rightarrow> DataManagerService \<Rightarrow> Context \<Rightarrow> DNSRequest \<Rightarrow> nat \<Rightarrow> 'g world \<Rightarrow> outcome \<times> 'g world" where
  "insertPTR env dms ctx req recidx w =
     withConfigAndBus ctx w (\<lambda>cfg.
       if length (reqRecords req) \<le> recidx then (Panicked, w)
       else
         let target = RemoveLastDot env (rrData (reqRecords req ! recidx)) in
         if target = [] then (Returned, w)
         else
           let domain = ToLower (WhichDomain cfg target) in
           if domain = [] then (Returned, w)
           else
             (Returned,
              setActive dms
                (Publish NewNameTopic PriorityHigh (newName target domain requests_DNS (reqSource req))
                  (insertAll env
                     (InsertPTR (reqName req) target (reqSource req) (reqTag req) (UUID cfg))
                     (failedTo env ''PTR record'') w))))"

definition insertSRV ::
  "'g env \<Rightarrow> DataManagerService \<Rightarrow> Context \<Rightarrow> DNSRequest \<Rightarrow> nat \<Rightarrow> 'g world \<Rightarrow> outcome \<times> 'g world" where
  "insertSRV env dms ctx req recidx w =
     withConfigAndBus ctx w (\<lambda>cfg.
       if length (reqRecords req) \<le> recidx then (Panicked, w)
       else
         let service = RemoveLastDot env (rrName (reqRecords req ! recidx));
             target = RemoveLastDot env (rrData (reqRecords req ! recidx)) in
         if target = [] \<or> service = [] then (Returned, w)
         else
           let w1 = insertAll env
                      (InsertSRV (reqName req) service target (reqSource req) (reqTag req) (UUID cfg))
                      (failedTo env ''SRV record'') w;
               domain = WhichDomain cfg target;
               w2 = (if domain \<noteq> []
                     then Publish NewNameTopic PriorityHigh
                            (newName target domain (reqTag req) (reqSource req)) w1
                     else w1)
           in (Returned, setActive dms w2))"

text \<open>\<^verbatim>\<open>pieces[len(pieces)-1]\<close> would panic on an empty slice.\<close>

definition insertNS ::
  "'g env \<Rightarrow> DataManagerService \<Rightarrow> Context \<Rightarrow> DNSRequest \<Rightarrow> nat \<Rightarrow> 'g world \<Rightarrow> outcome \<times> 'g world" where
  "insertNS env dms ctx req recidx w =
     withConfigAndBus ctx w (\<lambda>cfg.
       if length (reqRecords req) \<le> recidx then (Panicked, w)
       else
         let pieces = Split (rrData (reqRecords req ! recidx)) (CHR '','') in
         if pieces = [] then (Panicked, w)
         else
           let target = pieces ! (length pieces - 1) in
           if target = [] then (Returned, w)
           else
             (case EffectiveTLDPlusOne env target of
                Inl err \<Rightarrow> (Returned, w)
              | Inr d \<Rightarrow>
                  let domain = ToLower d in
                  if domain = [] then (Returned, w)
                  else
                    let w1 = insertAll env
                               (InsertNS (reqName req) target (reqSource req) (reqTag req) (UUID cfg))
                               (failedTo env ''NS record'') w;
                        w2 = (if target \<noteq> domain
                              then Publish NewNameTopic PriorityHigh
                                     (newName target domain requests_DNS ''DNS'') w1
                              else w1)
                    in (Returned, setActive dms w2)))"

definition insertMX ::
  "'g env \<Rightarrow> DataManagerService \<Rightarrow> Context \<Rightarrow> DNSRequest \<Rightarrow> nat \<Rightarrow> 'g world \<Rightarrow> outcome \<times> 'g world" where
  "insertMX env dms ctx req recidx w =
     withConfigAndBus ctx w (\<lambda>cfg.
       if length (reqRecords req) \<le> recidx then (Panicked, w)
       else
         let target = RemoveLastDot env (rrData (reqRecords req ! recidx)) in
         if target = [] then (Returned, w)
         else
           (case EffectiveTLDPlusOne env target of
              Inl err \<Rightarrow> (Returned, w)
            | Inr d \<Rightarrow>
                let domain = ToLower d in
                if domain = [] then (Returned, w)
                else
                  let w1 = insertAll env
                             (InsertMX (reqName req) target (reqSource req) (reqTag req) (UUID cfg))
                             (failedTo env ''MX record'') w;
                      w2 = (if target \<noteq> domain
                            then Publish NewNameTopic PriorityHigh
                                   (newName target domain requests_DNS ''DNS'') w1
                            else w1)
                  in (Returned, setActive dms w2)))"

subsection \<open>The text miner\<close>

text \<open>The two loops of \<^verbatim>\<open>findNamesAndAddresses\<close> over the matches of the regular
  expressions.\<close>

fun publishAddrs :: "string \<Rightarrow> string list \<Rightarrow> 'g world \<Rightarrow> 'g world" where
  "publishAddrs domain [] w = w"
| "publishAddrs domain (ip # ips) w =
     publishAddrs domain ips
       (Publish NewAddrTopic PriorityHigh (newAddr ip domain requests_DNS ''DNS'') w)"

fun publishNames :: "Config \<Rightarrow> string list \<Rightarrow> 'g world \<Rightarrow> 'g world" where
  "publishNames cfg [] w = w"
| "publishNames cfg (name # names) w =
     (if \<not> IsDomainInScope cfg name then publishNames cfg names w
      else
        let domain = ToLower (WhichDomain cfg name) in
        if domain = [] then publishNames cfg names w
        else publishNames cfg names
               (Publish NewNameTopic PriorityHigh (newName name domain requests_DNS ''DNS'') w))"

definition findNamesAndAddresses ::
  "'g env \<Rightarrow> DataManagerService \<Rightarrow> Context \<Rightarrow> string \<Rightarrow> string \<Rightarrow> 'g world \<Rightarrow> outcome \<times> 'g world" where
  "findNamesAndAddresses env dms ctx data domain w =
     withConfigAndBus ctx w (\<lambda>cfg.
       (Returned,
        setActive dms
          (publishNames cfg (SubdomainMatches env data)
            (publishAddrs domain (IPv4Matches env data) w))))"

definition insertTXT ::
  "'g env \<Rightarrow> DataManagerService \<Rightarrow> Context \<Rightarrow> DNSRequest \<Rightarrow> nat \<Rightarrow> 'g world \<Rightarrow> outcome \<times> 'g world" where
  "insertTXT env dms ctx req recidx w =
     (case ContextConfig ctx of
        NoValue \<Rightarrow> (Panicked, w)
      | NilPtr \<Rightarrow> (Returned, w)
      | Ptr cfg \<Rightarrow>
          if \<not> IsDomainInScope cfg (reqName req) then (Returned, w)
          else if length (reqRecords req) \<le> recidx then (Panicked, w)
          else findNamesAndAddresses env dms ctx (rrData (reqRecords req ! recidx)) (reqDomain req) w)"

definition insertSPF ::
  "'g env \<Rightarrow> DataManagerService \<Rightarrow> Context \<Rightarrow> DNSRequest \<Rightarrow> nat \<Rightarrow> 'g world \<Rightarrow> outcome \<times> 'g world" where
  "insertSPF env dms ctx req recidx w =
     (case ContextConfig ctx of
        NoValue \<Rightarrow> (Panicked, w)
      | NilPtr \<Rightarrow> (Returned, w)
      | Ptr cfg \<Rightarrow>
          if \<not> IsDomainInScope cfg (reqName req) then (Returned, w)
          else if length (reqRecords req) \<le> recidx then (Panicked, w)
          else findNamesAndAddresses env dms ctx (rrData (reqRecords req ! recidx)) (reqDomain req) w)"

subsection \<open>OnASNRequest\<close>

definition OnASNRequest ::
  "'g env \<Rightarrow> DataManagerService \<Rightarrow> Context \<Rightarrow> ASNRequest \<Rightarrow> 'g world \<Rightarrow> outcome \<times> 'g world" where
  "OnASNRequest env dms ctx req w =
     (if asnAddress req = [] \<or> asnPrefix req = [] \<or> asnDescription req = [] then (Returned, w)
      else
        withConfigAndBus ctx w (\<lambda>cfg.
          (Returned,
           setActive dms
             (insertAll env
                (InsertInfrastructure (asnASN req) (asnDescription req) (asnAddress req)
                   (asnPrefix req) (asnSource req) (asnTag req) (UUID cfg))
                (\<lambda>g err. ServiceName dms @ '': '' @ GraphString env g
                           @ '' failed to insert infrastructure data: '' @ errString err)
                w))))"

subsection \<open>The dispatcher\<close>

text \<open>Lines 87 and 88: the name and the data of a record, in lower case and without
  the dots at either end.\<close>

definition normalizeRecord :: "DNSAnswer \<Rightarrow> DNSAnswer" where
  "normalizeRecord r = r\<lparr>rrName := Trim (ToLower (rrName r)) ''.'', rrData := Trim (ToLower (rrData r)) ''.''\<rparr>"

datatype handler = H_CNAME | H_A | H_AAAA | H_PTR | H_SRV | H_NS | H_MX | H_TXT | H_SPF

text \<open>The \<^verbatim>\<open>switch uint16(r.Type)\<close> of the second loop: the handler of a record type.\<close>

definition handlerFor :: "uint16 \<Rightarrow> handler option" where
  "handlerFor t =
     (if t = TypeA then Some H_A
      else if t = TypeAAAA then Some H_AAAA
      else if t = TypePTR then Some H_PTR
      else if t = TypeSRV then Some H_SRV
      else if t = TypeNS then Some H_NS
      else if t = TypeMX then Some H_MX
      else if t = TypeTXT then Some H_TXT
      else if t = TypeSPF then Some H_SPF
      else None)"

fun invoke ::
  "handler \<Rightarrow> 'g env \<Rightarrow> DataManagerService \<Rightarrow> Context \<Rightarrow> DNSRequest \<Rightarrow> nat \<Rightarrow> 'g world
     \<Rightarrow> outcome \<times> 'g world" where
  "invoke H_CNAME = insertCNAME"
| "invoke H_A = insertA"
| "invoke H_AAAA = insertAAAA"
| "invoke H_PTR = insertPTR"
| "invoke H_SRV = insertSRV"
| "invoke H_NS = insertNS"
| "invoke H_MX = insertMX"
| "invoke H_TXT = insertTXT"
| "invoke H_SPF = insertSPF"

text \<open>
  The first loop (lines 86 to 95), from index \<open>i\<close> on. It writes the normalized name and
  data of record \<open>i\<close> into the request, and at a CNAME record it calls the CNAME handler
  and the function returns: the answer is then \<open>Some\<close> of the handler's outcome, the
  handler calls made (which handler, at which index) and the world. \<open>None\<close> says that the
  loop ran to its end. The request comes back as the loop left it.
\<close>

function cnameLoop ::
  "'g env \<Rightarrow> DataManagerService \<Rightarrow> Context \<Rightarrow> DNSRequest \<Rightarrow> nat \<Rightarrow> 'g world
     \<Rightarrow> (outcome \<times> (handler \<times> nat) list \<times> 'g world) option \<times> DNSRequest" where
  "cnameLoop env dms ctx req i w =
     (if length (reqRecords req) \<le> i then (None, req)
      else
        let r = reqRecords req ! i;
            req' = req\<lparr>reqRecords := (reqRecords req)[i := normalizeRecord r]\<rparr>
        in
          if uint16 (rrType r) = TypeCNAME
          then (case insertCNAME env dms ctx req' i w of
                  (out, w') \<Rightarrow> (Some (out, [(H_CNAME, i)], w'), req'))
          else cnameLoop env dms ctx req' (Suc i) w)"
  by pat_completeness auto
termination
  by (relation "measure (\<lambda>(env, dms, ctx, req, i, w). length (reqRecords req) - i)") auto

text \<open>The second loop (lines 97 to 118), from index \<open>i\<close> on: a heartbeat, then the handler
  of the record's type, if it has one. A panic of a handler ends the loop.\<close>

function dispatchLoop ::
  "'g env \<Rightarrow> DataManagerService \<Rightarrow> Context \<Rightarrow> DNSRequest \<Rightarrow> nat \<Rightarrow> 'g world
     \<Rightarrow> outcome \<times> (handler \<times> nat) list \<times> 'g world" where
  "dispatchLoop env dms ctx req i w =
     (if length (reqRecords req) \<le> i then (Returned, [], w)
      else
        let w1 = setActive dms w in
        (case handlerFor (uint16 (rrType (reqRecords req ! i))) of
           None \<Rightarrow> dispatchLoop env dms ctx req (Suc i) w1
         | Some h \<Rightarrow>
             (case invoke h env dms ctx req i w1 of
                (Panicked, w2) \<Rightarrow> (Panicked, [(h, i)], w2)
              | (Returned, w2) \<Rightarrow>
                  (case dispatchLoop env dms ctx req (Suc i) w2 of
                     (out, hs, w3) \<Rightarrow> (out, (h, i) # hs, w3)))))"
  by pat_completeness auto
termination
  by (relation "measure (\<lambda>(env, dms, ctx, req, i, w). length (reqRecords req) - i)") auto

definition Release :: "'g world \<Rightarrow> 'g world" where
  "Release w = w\<lparr>releases := Suc (releases w)\<rparr>"

text \<open>
  \<^verbatim>\<open>processDNSRequest\<close>: the outcome, the handler calls made in order, the request as the
  function left it (it writes into \<^verbatim>\<open>req.Records\<close>) and the world. The deferred
  \<^verbatim>\<open>Release(1)\<close> runs on every way out, a panic too.
\<close>

definition processDNSRequest ::
  "'g env \<Rightarrow> DataManagerService \<Rightarrow> Context \<Rightarrow> DNSRequest \<Rightarrow> 'g world
     \<Rightarrow> outcome \<times> (handler \<times> nat) list \<times> DNSRequest \<times> 'g world" where
  "processDNSRequest env dms ctx req w =
     (case ContextEventBus ctx of
        NoValue \<Rightarrow> (Panicked, [], req, Release w)
      | NilPtr \<Rightarrow> (Returned, [], req, Release w)
      | Ptr bus \<Rightarrow>
          let w0 = setActive dms w in
          (case cnameLoop env dms ctx req 0 w0 of
             (Some (out, hs, w'), req') \<Rightarrow> (out, hs, req', Release w')
           | (None, req') \<Rightarrow>
               (case dispatchLoop env dms ctx req' 0 w0 of
                  (out, hs, w') \<Rightarrow> (out, hs, req', Release w'))))"

subsection \<open>OnDNSRequest: the admission loop\<close>

text \<open>
  What one round of the \<^verbatim>\<open>select\<close> meets. The quit channel, the ticker and the
  semaphore belong to other goroutines, so the run of the loop is a function of the
  sequence of these events: the quit channel is closed, the ticker has fired, or neither
  (the \<^verbatim>\<open>default\<close> case), and then \<^verbatim>\<open>TryAcquire(1)\<close> fails or succeeds.
\<close>

datatype select_event = QuitClosed | TickFired | AcquireFailed | Acquired

definition maxIdx :: nat where
  "maxIdx = 6"

definition delays :: "nat list" where
  "delays = [25, 50, 75, 100, 150, 250, 500]"

text \<open>
  The answer of \<^verbatim>\<open>OnDNSRequest\<close>: the outcome (\<open>None\<close> when the events end while the loop
  still waits), the last value of \<^verbatim>\<open>curIdx\<close>, the arguments of the \<^verbatim>\<open>time.Sleep\<close> calls in
  milliseconds, and what \<^verbatim>\<open>processDNSRequest\<close> answered. The goroutine that
  \<^verbatim>\<open>go dms.processDNSRequest(ctx, req)\<close> starts is run in place.
\<close>

record 'g admission =
  admOutcome :: "outcome option"
  admCurIdx :: nat
  admSleeps :: "nat list"
  admInvoked :: "(handler \<times> nat) list"
  admRequest :: DNSRequest
  admWorld :: "'g world"

fun admissionLoop ::
  "'g env \<Rightarrow> DataManagerService \<Rightarrow> Context \<Rightarrow> DNSRequest \<Rightarrow> select_event list \<Rightarrow> nat \<Rightarrow> nat list
     \<Rightarrow> 'g world \<Rightarrow> 'g admission" where
  "admissionLoop env dms ctx req [] curIdx sl w =
     \<lparr>admOutcome = None, admCurIdx = curIdx, admSleeps = sl, admInvoked = [],
      admRequest = req, admWorld = w\<rparr>"
| "admissionLoop env dms ctx req (QuitClosed # evs) curIdx sl w =
     \<lparr>admOutcome = Some Returned, admCurIdx = curIdx, admSleeps = sl, admInvoked = [],
      admRequest = req, admWorld = w\<rparr>"
| "admissionLoop env dms ctx req (TickFired # evs) curIdx sl w =
     admissionLoop env dms ctx req evs curIdx sl (setActive dms w)"
| "admissionLoop env dms ctx req (AcquireFailed # evs) curIdx sl w =
     (if length delays \<le> curIdx
      then \<lparr>admOutcome = Some Panicked, admCurIdx = curIdx, admSleeps = sl, admInvoked = [],
            admRequest = req, admWorld = w\<rparr>
      else admissionLoop env dms ctx req evs
             (if curIdx < maxIdx then curIdx + 1 else curIdx) (sl @ [delays ! curIdx]) w)"
| "admissionLoop env dms ctx req (Acquired # evs) curIdx sl w =
     (case processDNSRequest env dms ctx req w of
        (out, hs, req', w') \<Rightarrow>
          \<lparr>admOutcome = Some out, admCurIdx = 0, admSleeps = sl, admInvoked = hs,
           admRequest = req', admWorld = w'\<rparr>)"

definition OnDNSRequest ::
  "'g env \<Rightarrow> DataManagerService \<Rightarrow> Context \<Rightarrow> DNSRequest \<Rightarrow> select_event list \<Rightarrow> 'g world
     \<Rightarrow> 'g admission" where
  "OnDNSRequest env dms ctx req evs w =
     (case ContextEventBus ctx of
        NoValue \<Rightarrow>
          \<lparr>admOutcome = Some Panicked, admCurIdx = 0, admSleeps = [], admInvoked = [],
           admRequest = req, admWorld = w\<rparr>
      | NilPtr \<Rightarrow>
          \<lparr>admOutcome = Some Returned, admCurIdx = 0, admSleeps = [], admInvoked = [],
           admRequest = req, admWorld = w\<rparr>
      | Ptr bus \<Rightarrow> admissionLoop env dms ctx req evs 0 [] w)"

section \<open>Observations\<close>

text \<open>What the statements below look at.\<close>

definition isCNAME :: "DNSAnswer \<Rightarrow> bool" where
  "isCNAME r = (uint16 (rrType r) = TypeCNAME)"

text \<open>The index of the first CNAME record of a list; its length when it has none.\<close>

definition firstCNAME :: "DNSAnswer list \<Rightarrow> nat" where
  "firstCNAME rs = length (takeWhile (\<lambda>r. \<not> isCNAME r) rs)"

text \<open>A publication on the new-name topic whose request has an empty domain.\<close>

definition emptyDomainName :: "publication \<Rightarrow> bool" where
  "emptyDomainName p =
     (case p of
        (t, pr, PName r) \<Rightarrow> t = NewNameTopic \<and> reqDomain r = []
      | _ \<Rightarrow> False)"

definition isNewName :: "publication \<Rightarrow> bool" where
  "isNewName p = (fst p = NewNameTopic)"

definition notLog :: "publication \<Rightarrow> bool" where
  "notLog p = (fst p \<noteq> LogTopic)"

text \<open>The bus only grows: \<open>w'\<close> has the publications of \<open>w\<close> and then the new ones.\<close>

definition extendsBus :: "'g world \<Rightarrow> 'g world \<Rightarrow> bool" where
  "extendsBus w w' = (take (length (published w)) (published w') = published w)"

definition newPublications :: "'g world \<Rightarrow> 'g world \<Rightarrow> publication list" where
  "newPublications w w' = drop (length (published w)) (published w')"

text \<open>The new-name publications among the new ones.\<close>

definition newNames :: "'g world \<Rightarrow> 'g world \<Rightarrow> publication list" where
  "newNames w w' = filter isNewName (newPublications w w')"

text \<open>From \<open>w\<close> to \<open>w'\<close> the bus has grown, and by no new-name request with an empty
  domain.\<close>

definition noEmptyDomain :: "'g world \<Rightarrow> 'g world \<Rightarrow> bool" where
  "noEmptyDomain w w' = (extendsBus w w' \<and> \<not> list_ex emptyDomainName (newPublications w w'))"


text \<open>Every database of \<open>w\<close> has received the insert \<open>f\<close> on the way to \<open>w'\<close>.\<close>

definition writtenToAll :: "'g env \<Rightarrow> fact \<Rightarrow> 'g world \<Rightarrow> 'g world \<Rightarrow> bool" where
  "writtenToAll env f w w' = (sinks w' = map (\<lambda>g. snd (Insert env f g)) (sinks w))"

text \<open>The same environment with databases that change as before and never answer with
  an error.\<close>

definition neverFailing :: "'g env \<Rightarrow> 'g env" where
  "neverFailing env = env\<lparr>Insert := \<lambda>f g. (None, snd (Insert env f g))\<rparr>"




text \<open>The specification's words for the delays: \<open>delay[min(n, 6)]\<close>.\<close>

definition nthDelay :: "nat \<Rightarrow> nat" where
  "nthDelay n = [25, 50, 75, 100, 150, 250, 500] ! min n 6"

text \<open>The failed acquisitions of one submission, up to the event that ends its loop, and
  whether that event is the acquisition.\<close>

fun failedAttempts :: "select_event list \<Rightarrow> nat" where
  "failedAttempts [] = 0"
| "failedAttempts (QuitClosed # evs) = 0"
| "failedAttempts (Acquired # evs) = 0"
| "failedAttempts (TickFired # evs) = failedAttempts evs"
| "failedAttempts (AcquireFailed # evs) = Suc (failedAttempts evs)"

fun admitted :: "select_event list \<Rightarrow> bool" where
  "admitted [] = False"
| "admitted (QuitClosed # evs) = False"
| "admitted (Acquired # evs) = True"
| "admitted (TickFired # evs) = admitted evs"
| "admitted (AcquireFailed # evs) = admitted evs"

section \<open>Example inputs\<close>

text \<open>A graph database that stores the inserts it accepts, and refuses all when it is
  down.\<close>

record Graph =
  graphName :: string
  graphDown :: bool
  graphFacts :: "fact list"

definition exampleEnv :: "Graph env" where
  "exampleEnv =
     \<lparr>RemoveLastDot = (\<lambda>s. if s \<noteq> [] \<and> last s = CHR ''.'' then butlast s else s),
      EffectiveTLDPlusOne =
        (\<lambda>s. if s = ''edge.cdn.example.net'' then Inr ''example.net''
              else if s = ''ns1.example.com'' \<or> s = ''example.com'' \<or> s = ''mail.example.com''
              then Inr ''example.com''
              else Inl (Error ''publicsuffix: cannot derive eTLD+1'')),
      IPv4Matches =
        (\<lambda>s. if s = ''v=spf1 include:_spf.example.com ip4:203.0.113.5 -all''
              then [''203.0.113.5''] else []),
      SubdomainMatches =
        (\<lambda>s. if s = ''v=spf1 include:_spf.example.com ip4:203.0.113.5 -all''
              then [''_spf.example.com''] else []),
      Insert =
        (\<lambda>f g. if graphDown g then (Some (Error ''connection refused''), g)
                else (None, g\<lparr>graphFacts := graphFacts g @ [f]\<rparr>)),
      GraphString = graphName\<rparr>"

definition exampleConfig :: Config where
  "exampleConfig =
     \<lparr>UUID = ''run-1'',
      WhichDomain =
        (\<lambda>s. if s = ''host.example.com'' \<or> s = ''_spf.example.com'' \<or> s = ''www.example.com''
              then ''example.com'' else []),
      IsDomainInScope =
        (\<lambda>s. s = ''host.example.com'' \<or> s = ''_spf.example.com'' \<or> s = ''www.example.com'')\<rparr>"

definition exampleContext :: Context where
  "exampleContext = \<lparr>ContextConfig = Ptr exampleConfig, ContextEventBus = Ptr ()\<rparr>"

definition exampleService :: DataManagerService where
  "exampleService = \<lparr>ServiceName = ''Data Manager''\<rparr>"

text \<open>Three databases, the second one down.\<close>

definition exampleWorld :: "Graph world" where
  "exampleWorld =
     \<lparr>published = [],
      sinks = [\<lparr>graphName = ''g1'', graphDown = False, graphFacts = []\<rparr>,
               \<lparr>graphName = ''g2'', graphDown = True, graphFacts = []\<rparr>,
               \<lparr>graphName = ''g3'', graphDown = False, graphFacts = []\<rparr>],
      releases = 0\<rparr>"

definition exampleRequest :: "DNSAnswer list \<Rightarrow> DNSRequest" where
  "exampleRequest rs =
     \<lparr>reqName = ''www.example.com'', reqDomain = ''example.com'', reqRecords = rs,
      reqTag = DNS, reqSource = ''DNS''\<rparr>"

definition cnameRecord :: DNSAnswer where
  "cnameRecord = \<lparr>rrName = ''www.example.com.'', rrType = 5, rrData = ''edge.cdn.example.net.''\<rparr>"

definition addressRecord :: DNSAnswer where
  "addressRecord = \<lparr>rrName = '' WWW.Example.com.'', rrType = 1, rrData = ''192.0.2.7 ''\<rparr>"

definition ptrRecord :: DNSAnswer where
  "ptrRecord = \<lparr>rrName = ''7.2.0.192.in-addr.arpa'', rrType = 12, rrData = ''host.elsewhere.org''\<rparr>"

definition nsRecord :: DNSAnswer where
  "nsRecord = \<lparr>rrName = ''example.com'', rrType = 2, rrData = ''example.com,ns1.example.com''\<rparr>"

definition mxRecord :: DNSAnswer where
  "mxRecord = \<lparr>rrName = ''example.com'', rrType = 15, rrData = ''mail.example.com''\<rparr>"

definition ptrInScope :: DNSAnswer where
  "ptrInScope = \<lparr>rrName = ''8.2.0.192.in-addr.arpa'', rrType = 12, rrData = ''host.example.com''\<rparr>"

definition apexRecord :: DNSAnswer where
  "apexRecord = \<lparr>rrName = ''example.com'', rrType = 2, rrData = ''example.com''\<rparr>"

definition localRecord :: DNSAnswer where
  "localRecord = \<lparr>rrName = ''_sip._tcp.example.com'', rrType = 33, rrData = ''localhost''\<rparr>"

definition txtRecord :: DNSAnswer where
  "txtRecord =
     \<lparr>rrName = ''example.com'', rrType = 16,
      rrData = ''v=spf1 include:_spf.example.com ip4:203.0.113.5 -all''\<rparr>"

section \<open>Strings\<close>

declare cnameLoop.simps [simp del] dispatchLoop.simps [simp del]




lemma ToLower_Nil_iff: "(ToLower s = []) = (s = [])"
  by (simp add: ToLower_def)








section \<open>Normalization is idempotent\<close>


section \<open>The TXT and the SPF handler\<close>

text \<open>
  Claim C10. The TXT handler and the SPF handler are the same function: for every
  environment, service, context, request, record index and world, \<open>insertTXT\<close> and
  \<open>insertSPF\<close> have the same outcome and leave the same world.
\<close>

theorem insertTXT_insertSPF:
  "insertTXT env dms ctx req recidx w = insertSPF env dms ctx req recidx w"
  by (simp add: insertTXT_def insertSPF_def)

section \<open>The bus and the graph databases, step by step\<close>

lemma published_Publish [simp]: "published (Publish t p x w) = published w @ [(t, p, x)]"
  by (simp add: Publish_def)

lemma sinks_Publish [simp]: "sinks (Publish t p x w) = sinks w"
  by (simp add: Publish_def)

lemma releases_Publish [simp]: "releases (Publish t p x w) = releases w"
  by (simp add: Publish_def)

lemma published_setActive [simp]:
  "published (setActive dms w) = published w @ [(SetActiveTopic, PriorityCritical, PString (ServiceName dms))]"
  by (simp add: setActive_def)

lemma sinks_setActive [simp]: "sinks (setActive dms w) = sinks w"
  by (simp add: setActive_def)

lemma releases_setActive [simp]: "releases (setActive dms w) = releases w"
  by (simp add: setActive_def)

lemma fst_graphInserts: "fst (graphInserts env f msg gs) = map (\<lambda>g. snd (Insert env f g)) gs"
  by (induction gs) (auto split: prod.splits option.splits)

lemma logs_graphInserts: "list_all (\<lambda>p. fst p = LogTopic) (snd (graphInserts env f msg gs))"
  by (induction gs) (auto split: prod.splits option.splits)

lemma graphInserts_neverFailing:
  "graphInserts (neverFailing env) f msg gs = (map (\<lambda>g. snd (Insert env f g)) gs, [])"
  by (induction gs) (simp_all add: neverFailing_def)

lemma published_insertAll:
  "published (insertAll env f msg w) = published w @ snd (graphInserts env f msg (sinks w))"
  by (simp add: insertAll_def split: prod.splits)

lemma sinks_insertAll [simp]:
  "sinks (insertAll env f msg w) = map (\<lambda>g. snd (Insert env f g)) (sinks w)"
  using fst_graphInserts [of env f msg "sinks w"] by (auto simp: insertAll_def split: prod.splits)

lemma releases_insertAll [simp]: "releases (insertAll env f msg w) = releases w"
  by (simp add: insertAll_def split: prod.splits)

lemma published_publishAddrs:
  "published (publishAddrs d ips w) =
     published w @ map (\<lambda>ip. (NewAddrTopic, PriorityHigh, newAddr ip d requests_DNS ''DNS'')) ips"
  by (induction ips arbitrary: w) simp_all

lemma sinks_publishAddrs [simp]: "sinks (publishAddrs d ips w) = sinks w"
  by (induction ips arbitrary: w) simp_all

lemma releases_publishAddrs [simp]: "releases (publishAddrs d ips w) = releases w"
  by (induction ips arbitrary: w) simp_all

lemma sinks_publishNames [simp]: "sinks (publishNames cfg ns w) = sinks w"
  by (induction ns arbitrary: w) (simp_all add: Let_def)

lemma releases_publishNames [simp]: "releases (publishNames cfg ns w) = releases w"
  by (induction ns arbitrary: w) (simp_all add: Let_def)

subsection \<open>A bus that grows by no new name with an empty domain\<close>

lemma noEmptyDomain_iff:
  "noEmptyDomain w w' = (\<exists>new. published w' = published w @ new \<and> \<not> list_ex emptyDomainName new)"
proof
  assume "noEmptyDomain w w'"
  then have "published w' = published w @ newPublications w w'"
    and "\<not> list_ex emptyDomainName (newPublications w w')"
    unfolding noEmptyDomain_def extendsBus_def newPublications_def
    by (metis append_take_drop_id, simp)
  then show "\<exists>new. published w' = published w @ new \<and> \<not> list_ex emptyDomainName new" by blast
next
  assume "\<exists>new. published w' = published w @ new \<and> \<not> list_ex emptyDomainName new"
  then show "noEmptyDomain w w'"
    by (auto simp: noEmptyDomain_def extendsBus_def newPublications_def)
qed

lemma noEmptyDomain_refl: "noEmptyDomain w w"
  by (simp add: noEmptyDomain_iff)

lemma noEmptyDomain_same: "published w' = published w \<Longrightarrow> noEmptyDomain w w'"
  by (simp add: noEmptyDomain_iff)

lemma noEmptyDomain_trans:
  "noEmptyDomain w w1 \<Longrightarrow> noEmptyDomain w1 w2 \<Longrightarrow> noEmptyDomain w w2"
  by (auto simp: noEmptyDomain_iff list_ex_iff)

lemma noEmptyDomain_append:
  "noEmptyDomain w w1 \<Longrightarrow> published w2 = published w1 @ new \<Longrightarrow> \<not> list_ex emptyDomainName new
     \<Longrightarrow> noEmptyDomain w w2"
  by (auto simp: noEmptyDomain_iff list_ex_iff)

lemma noEmptyDomain_Publish:
  "noEmptyDomain w w1 \<Longrightarrow> \<not> emptyDomainName (t, p, x) \<Longrightarrow> noEmptyDomain w (Publish t p x w1)"
  by (erule noEmptyDomain_append [where new = "[(t, p, x)]"]) simp_all

lemma noEmptyDomain_setActive: "noEmptyDomain w w1 \<Longrightarrow> noEmptyDomain w (setActive dms w1)"
  unfolding setActive_def by (erule noEmptyDomain_Publish) (simp add: emptyDomainName_def)

lemma log_not_emptyDomainName: "fst p = LogTopic \<Longrightarrow> \<not> emptyDomainName p"
  by (auto simp: emptyDomainName_def split: prod.splits payload.splits)

lemma noEmptyDomain_insertAll: "noEmptyDomain w w1 \<Longrightarrow> noEmptyDomain w (insertAll env f msg w1)"
proof (erule noEmptyDomain_append [OF _ published_insertAll])
  show "\<not> list_ex emptyDomainName (snd (graphInserts env f msg (sinks w1)))"
    using logs_graphInserts [of env f msg "sinks w1"]
    by (auto simp: list_ex_iff list_all_iff log_not_emptyDomainName)
qed

lemma noEmptyDomain_publishAddrs:
  "noEmptyDomain w w1 \<Longrightarrow> noEmptyDomain w (publishAddrs d ips w1)"
  by (erule noEmptyDomain_append [OF _ published_publishAddrs])
     (auto simp: list_ex_iff emptyDomainName_def newAddr_def)

lemma noEmptyDomain_publishNames:
  "noEmptyDomain w w1 \<Longrightarrow> noEmptyDomain w (publishNames cfg ns w1)"
proof (induction ns arbitrary: w1)
  case Nil
  then show ?case by simp
next
  case (Cons n ns)
  show ?case
  proof (cases "IsDomainInScope cfg n \<and> ToLower (WhichDomain cfg n) \<noteq> []")
    case True
    then have "noEmptyDomain w
        (Publish NewNameTopic PriorityHigh
           (newName n (ToLower (WhichDomain cfg n)) requests_DNS ''DNS'') w1)"
      by (intro noEmptyDomain_Publish Cons.prems) (simp add: emptyDomainName_def newName_def)
    then show ?thesis using True Cons.IH by (simp add: Let_def)
  next
    case False
    then show ?thesis using Cons by (auto simp: Let_def)
  qed
qed

lemmas noEmptyDomain_steps =
  noEmptyDomain_setActive noEmptyDomain_Publish noEmptyDomain_insertAll
  noEmptyDomain_publishAddrs noEmptyDomain_publishNames

lemma noEmptyDomain_findNamesAndAddresses:
  "noEmptyDomain w (snd (findNamesAndAddresses env dms ctx d dm w))"
  by (auto simp: findNamesAndAddresses_def withConfigAndBus_def noEmptyDomain_refl
      split: ctxval.splits intro!: noEmptyDomain_steps)

lemma noEmptyDomain_insertCNAME: "noEmptyDomain w (snd (insertCNAME env dms ctx req i w))"
  by (auto simp: insertCNAME_def withConfigAndBus_def noEmptyDomain_refl Let_def
      emptyDomainName_def newName_def
      split: ctxval.splits sum.splits intro!: noEmptyDomain_steps)

lemma noEmptyDomain_insertA: "noEmptyDomain w (snd (insertA env dms ctx req i w))"
  by (auto simp: insertA_def withConfigAndBus_def noEmptyDomain_refl Let_def
      emptyDomainName_def newAddr_def
      split: ctxval.splits sum.splits intro!: noEmptyDomain_steps)

lemma noEmptyDomain_insertAAAA: "noEmptyDomain w (snd (insertAAAA env dms ctx req i w))"
  by (auto simp: insertAAAA_def withConfigAndBus_def noEmptyDomain_refl Let_def
      emptyDomainName_def newAddr_def
      split: ctxval.splits sum.splits intro!: noEmptyDomain_steps)

lemma noEmptyDomain_insertPTR: "noEmptyDomain w (snd (insertPTR env dms ctx req i w))"
  by (auto simp: insertPTR_def withConfigAndBus_def noEmptyDomain_refl Let_def
      emptyDomainName_def newName_def
      split: ctxval.splits sum.splits intro!: noEmptyDomain_steps)

lemma noEmptyDomain_insertSRV: "noEmptyDomain w (snd (insertSRV env dms ctx req i w))"
  by (auto simp: insertSRV_def withConfigAndBus_def noEmptyDomain_refl Let_def
      emptyDomainName_def newName_def
      split: ctxval.splits sum.splits intro!: noEmptyDomain_steps)

lemma noEmptyDomain_insertNS: "noEmptyDomain w (snd (insertNS env dms ctx req i w))"
  by (auto simp: insertNS_def withConfigAndBus_def noEmptyDomain_refl Let_def
      emptyDomainName_def newName_def
      split: ctxval.splits sum.splits intro!: noEmptyDomain_steps)

lemma noEmptyDomain_insertMX: "noEmptyDomain w (snd (insertMX env dms ctx req i w))"
  by (auto simp: insertMX_def withConfigAndBus_def noEmptyDomain_refl Let_def
      emptyDomainName_def newName_def
      split: ctxval.splits sum.splits intro!: noEmptyDomain_steps)

lemma noEmptyDomain_insertTXT: "noEmptyDomain w (snd (insertTXT env dms ctx req i w))"
  by (auto simp: insertTXT_def noEmptyDomain_refl noEmptyDomain_findNamesAndAddresses
      split: ctxval.splits)

lemma noEmptyDomain_insertSPF: "noEmptyDomain w (snd (insertSPF env dms ctx req i w))"
  by (auto simp: insertSPF_def noEmptyDomain_refl noEmptyDomain_findNamesAndAddresses
      split: ctxval.splits)

lemma noEmptyDomain_invoke: "noEmptyDomain w (snd (invoke h env dms ctx req i w))"
  by (cases h)
     (simp_all add: noEmptyDomain_insertCNAME noEmptyDomain_insertA noEmptyDomain_insertAAAA
        noEmptyDomain_insertPTR noEmptyDomain_insertSRV noEmptyDomain_insertNS
        noEmptyDomain_insertMX noEmptyDomain_insertTXT noEmptyDomain_insertSPF)

section \<open>The two loops of the dispatcher\<close>

lemma firstCNAME_Nil [simp]: "firstCNAME [] = 0"
  by (simp add: firstCNAME_def)

lemma firstCNAME_Cons [simp]:
  "firstCNAME (r # rs) = (if isCNAME r then 0 else Suc (firstCNAME rs))"
  by (simp add: firstCNAME_def)

lemma firstCNAME_le: "firstCNAME rs \<le> length rs"
  by (simp add: firstCNAME_def length_takeWhile_le)

lemma cnameLoop_split:
  "reqRecords req = pre @ rest \<Longrightarrow>
   cnameLoop env dms ctx req (length pre) w =
     (let k = firstCNAME rest in
      if k < length rest
      then (let req' = req\<lparr>reqRecords := pre @ map normalizeRecord (take (Suc k) rest) @ drop (Suc k) rest\<rparr> in
            case insertCNAME env dms ctx req' (length pre + k) w of
              (out, w') \<Rightarrow> (Some (out, [(H_CNAME, length pre + k)], w'), req'))
      else (None, req\<lparr>reqRecords := pre @ map normalizeRecord rest\<rparr>))"
proof (induction rest arbitrary: pre req)
  case Nil
  then show ?case by (subst cnameLoop.simps) simp
next
  case (Cons r rs)
  let ?req' = "req\<lparr>reqRecords := (pre @ [normalizeRecord r]) @ rs\<rparr>"
  have upd: "req\<lparr>reqRecords := (reqRecords req)[length pre := normalizeRecord (reqRecords req ! length pre)]\<rparr> = ?req'"
    using Cons.prems by simp
  show ?case
  proof (cases "isCNAME r")
    case True
    then show ?thesis
      using Cons.prems upd
      by (subst cnameLoop.simps) (simp add: Let_def isCNAME_def)
  next
    case False
    have "cnameLoop env dms ctx req (length pre) w = cnameLoop env dms ctx ?req' (Suc (length pre)) w"
      using Cons.prems upd False
      by (subst cnameLoop.simps) (simp add: Let_def isCNAME_def)
    also have "\<dots> = cnameLoop env dms ctx ?req' (length (pre @ [normalizeRecord r])) w" by simp
    also have "\<dots> = (let k = firstCNAME rs in
      if k < length rs
      then (let req' = ?req'\<lparr>reqRecords := (pre @ [normalizeRecord r]) @ map normalizeRecord (take (Suc k) rs) @ drop (Suc k) rs\<rparr> in
            case insertCNAME env dms ctx req' (length (pre @ [normalizeRecord r]) + k) w of
              (out, w') \<Rightarrow> (Some (out, [(H_CNAME, length (pre @ [normalizeRecord r]) + k)], w'), req'))
      else (None, ?req'\<lparr>reqRecords := (pre @ [normalizeRecord r]) @ map normalizeRecord rs\<rparr>))"
      by (rule Cons.IH) simp
    finally show ?thesis using False by (simp add: Let_def)
  qed
qed

lemma cnameLoop_0:
  "cnameLoop env dms ctx req 0 w =
     (let rs = reqRecords req; k = firstCNAME rs in
      if k < length rs
      then (let req' = req\<lparr>reqRecords := map normalizeRecord (take (Suc k) rs) @ drop (Suc k) rs\<rparr> in
            case insertCNAME env dms ctx req' k w of
              (out, w') \<Rightarrow> (Some (out, [(H_CNAME, k)], w'), req'))
      else (None, req\<lparr>reqRecords := map normalizeRecord rs\<rparr>))"
  using cnameLoop_split [of req "[]" "reqRecords req" env dms ctx w] by (simp add: Let_def)

lemma noEmptyDomain_dispatchLoop:
  "noEmptyDomain w0 w \<Longrightarrow> noEmptyDomain w0 (snd (snd (dispatchLoop env dms ctx req i w)))"
proof (induction env dms ctx req i w rule: dispatchLoop.induct)
  case (1 env dms ctx req i w)
  show ?case
  proof (cases "length (reqRecords req) \<le> i")
    case True
    then show ?thesis using "1.prems" by (subst dispatchLoop.simps) simp
  next
    case False
    let ?w1 = "setActive dms w"
    have q1: "noEmptyDomain w0 ?w1" using "1.prems" by (rule noEmptyDomain_setActive)
    show ?thesis
    proof (cases "handlerFor (uint16 (rrType (reqRecords req ! i)))")
      case None
      then show ?thesis
        using False "1.IH"(1) [OF False refl None q1]
        by (subst dispatchLoop.simps) (simp add: Let_def)
    next
      case (Some h)
      obtain out w2 where inv: "invoke h env dms ctx req i ?w1 = (out, w2)" by (cases "invoke h env dms ctx req i ?w1")
      have q2: "noEmptyDomain w0 w2"
        using noEmptyDomain_trans [OF q1 noEmptyDomain_invoke [of ?w1 h env dms ctx req i]] inv by simp
      show ?thesis
      proof (cases out)
        case Returned
        then show ?thesis
          using False Some inv "1.IH"(2) [OF False refl Some inv [symmetric, unfolded Returned] _ q2]
          by (subst dispatchLoop.simps) (auto simp: Let_def split: prod.splits)
      next
        case Panicked
        then show ?thesis
          using False Some inv q2
          by (subst dispatchLoop.simps) (simp add: Let_def)
      qed
    qed
  qed
qed

lemma published_Release [simp]: "published (Release w) = published w"
  by (simp add: Release_def)

lemma sinks_Release [simp]: "sinks (Release w) = sinks w"
  by (simp add: Release_def)

lemma noEmptyDomain_Release: "noEmptyDomain w w1 \<Longrightarrow> noEmptyDomain w (Release w1)"
  by (simp add: noEmptyDomain_def extendsBus_def newPublications_def)

lemma noEmptyDomain_processDNSRequest:
  "noEmptyDomain w0 w \<Longrightarrow> noEmptyDomain w0 (snd (snd (snd (processDNSRequest env dms ctx req w))))"
proof (cases "ContextEventBus ctx")
  case NoValue
  assume "noEmptyDomain w0 w"
  then show ?thesis using NoValue by (simp add: processDNSRequest_def noEmptyDomain_Release)
next
  case NilPtr
  assume "noEmptyDomain w0 w"
  then show ?thesis using NilPtr by (simp add: processDNSRequest_def noEmptyDomain_Release)
next
  case (Ptr b)
  assume "noEmptyDomain w0 w"
  then have q: "noEmptyDomain w0 (setActive dms w)" by (rule noEmptyDomain_setActive)
  show ?thesis
  proof (cases "firstCNAME (reqRecords req) < length (reqRecords req)")
    case True
    let ?req' = "req\<lparr>reqRecords :=
                   map normalizeRecord (take (Suc (firstCNAME (reqRecords req))) (reqRecords req)) @
                   drop (Suc (firstCNAME (reqRecords req))) (reqRecords req)\<rparr>"
    obtain out w' where c: "insertCNAME env dms ctx ?req' (firstCNAME (reqRecords req)) (setActive dms w) = (out, w')"
      by (cases "insertCNAME env dms ctx ?req' (firstCNAME (reqRecords req)) (setActive dms w)")
    have "noEmptyDomain w0 w'"
      using noEmptyDomain_trans [OF q noEmptyDomain_insertCNAME [of "setActive dms w" env dms ctx ?req' "firstCNAME (reqRecords req)"]] c
      by simp
    then show ?thesis
      using Ptr True c
      by (simp add: processDNSRequest_def cnameLoop_0 Let_def noEmptyDomain_Release)
  next
    case False
    let ?req' = "req\<lparr>reqRecords := map normalizeRecord (reqRecords req)\<rparr>"
    obtain out hs w' where c: "dispatchLoop env dms ctx ?req' 0 (setActive dms w) = (out, hs, w')"
      by (cases "dispatchLoop env dms ctx ?req' 0 (setActive dms w)")
    have "noEmptyDomain w0 w'"
      using noEmptyDomain_dispatchLoop [OF q, of env dms ctx ?req' 0] c by simp
    then show ?thesis
      using Ptr False c
      by (simp add: processDNSRequest_def cnameLoop_0 Let_def noEmptyDomain_Release)
  qed
qed

lemma noEmptyDomain_admissionLoop:
  "noEmptyDomain w0 w \<Longrightarrow> noEmptyDomain w0 (admWorld (admissionLoop env dms ctx req evs curIdx sl w))"
proof (induction evs arbitrary: curIdx sl w)
  case Nil
  then show ?case by simp
next
  case (Cons e evs)
  then show ?case
    by (cases e)
       (auto simp: noEmptyDomain_setActive split: prod.splits
          dest: noEmptyDomain_processDNSRequest [where env = env and dms = dms and ctx = ctx and req = req])
qed

lemma noEmptyDomain_OnDNSRequest:
  "noEmptyDomain w (admWorld (OnDNSRequest env dms ctx req evs w))"
  by (cases "ContextEventBus ctx")
     (simp_all add: OnDNSRequest_def noEmptyDomain_refl noEmptyDomain_admissionLoop)

lemma noEmptyDomain_OnASNRequest: "noEmptyDomain w (snd (OnASNRequest env dms ctx asn w))"
  by (auto simp: OnASNRequest_def withConfigAndBus_def noEmptyDomain_refl
      split: ctxval.splits intro!: noEmptyDomain_steps)

section \<open>No new name with an empty domain\<close>

lemma Split_not_Nil [simp]: "Split s sep \<noteq> []"
  by (induction s) (auto split: list.splits)

lemma newPublications_append:
  "published w' = published w @ new \<Longrightarrow> newPublications w w' = new"
  by (simp add: newPublications_def)

lemma newNames_append:
  "published w' = published w @ new \<Longrightarrow> newNames w w' = filter isNewName new"
  by (simp add: newNames_def newPublications_append)

lemma newNames_self [simp]: "newNames w w = []"
  by (simp add: newNames_def newPublications_def)

lemma no_names_in_logs [simp]: "filter isNewName (snd (graphInserts env f msg gs)) = []"
  using logs_graphInserts [of env f msg gs]
  by (auto simp: filter_empty_conv list_all_iff isNewName_def)

lemma publishNames_none:
  "list_all (\<lambda>n. WhichDomain cfg n = []) ns \<Longrightarrow> publishNames cfg ns w = w"
  by (induction ns arbitrary: w) (simp_all add: Let_def ToLower_Nil_iff)

lemma no_name_insertCNAME:
  "(case EffectiveTLDPlusOne env (RemoveLastDot env (rrData (reqRecords req ! i))) of
      Inl e \<Rightarrow> True | Inr d \<Rightarrow> d = []) \<Longrightarrow>
   newNames w (snd (insertCNAME env dms ctx req i w)) = []"
  by (auto simp: insertCNAME_def withConfigAndBus_def Let_def ToLower_Nil_iff
      split: ctxval.splits sum.splits)

lemma no_name_insertMX:
  "(case EffectiveTLDPlusOne env (RemoveLastDot env (rrData (reqRecords req ! i))) of
      Inl e \<Rightarrow> True | Inr d \<Rightarrow> d = []) \<Longrightarrow>
   newNames w (snd (insertMX env dms ctx req i w)) = []"
  by (auto simp: insertMX_def withConfigAndBus_def Let_def ToLower_Nil_iff
      split: ctxval.splits sum.splits)

lemma no_name_insertNS:
  "(case EffectiveTLDPlusOne env (last (Split (rrData (reqRecords req ! i)) (CHR '',''))) of
      Inl e \<Rightarrow> True | Inr d \<Rightarrow> d = []) \<Longrightarrow>
   newNames w (snd (insertNS env dms ctx req i w)) = []"
  by (auto simp: insertNS_def withConfigAndBus_def Let_def ToLower_Nil_iff last_conv_nth
      split: ctxval.splits sum.splits)

lemma no_name_insertPTR:
  "ContextConfig ctx = Ptr cfg \<Longrightarrow>
   WhichDomain cfg (RemoveLastDot env (rrData (reqRecords req ! i))) = [] \<Longrightarrow>
   newNames w (snd (insertPTR env dms ctx req i w)) = []"
  by (auto simp: insertPTR_def withConfigAndBus_def Let_def ToLower_Nil_iff
      split: ctxval.splits sum.splits)

lemma no_name_insertSRV:
  "ContextConfig ctx = Ptr cfg \<Longrightarrow>
   WhichDomain cfg (RemoveLastDot env (rrData (reqRecords req ! i))) = [] \<Longrightarrow>
   newNames w (snd (insertSRV env dms ctx req i w)) = []"
  by (auto simp: insertSRV_def withConfigAndBus_def Let_def published_insertAll
      newNames_append isNewName_def
      split: ctxval.splits sum.splits)

lemma no_name_findNamesAndAddresses:
  "ContextConfig ctx = Ptr cfg \<Longrightarrow>
   list_all (\<lambda>n. WhichDomain cfg n = []) (SubdomainMatches env d) \<Longrightarrow>
   newNames w (snd (findNamesAndAddresses env dms ctx d dm w)) = []"
  by (auto simp: findNamesAndAddresses_def withConfigAndBus_def publishNames_none
      published_publishAddrs newNames_append isNewName_def filter_empty_conv
      split: ctxval.splits)


text \<open>
  Claim C1. No execution publishes a new-name request with an empty domain: whatever the
  input, the publications that \<open>OnDNSRequest\<close>, \<open>processDNSRequest\<close>, each of the nine
  handlers and the text miner add to the bus hold no new-name request whose domain is
  empty. And where the derivation of the domain fails (an error or an empty answer of
  \<open>EffectiveTLDPlusOne\<close> for the CNAME, MX and NS handlers, an empty answer of
  \<open>WhichDomain\<close> for the PTR and SRV handlers and for every name the text miner finds),
  the handler publishes no new-name request at all.
\<close>

theorem no_empty_domain_name_event:
  "noEmptyDomain w (admWorld (OnDNSRequest env dms ctx req evs w)) \<and>
   noEmptyDomain w (snd (snd (snd (processDNSRequest env dms ctx req w)))) \<and>
   noEmptyDomain w (snd (invoke h env dms ctx req recidx w)) \<and>
   noEmptyDomain w (snd (findNamesAndAddresses env dms ctx d dm w)) \<and>
   ((case EffectiveTLDPlusOne env (RemoveLastDot env (rrData (reqRecords req ! recidx))) of
       Inl e \<Rightarrow> True | Inr x \<Rightarrow> x = []) \<longrightarrow>
    newNames w (snd (insertCNAME env dms ctx req recidx w)) = [] \<and>
    newNames w (snd (insertMX env dms ctx req recidx w)) = []) \<and>
   ((case EffectiveTLDPlusOne env (last (Split (rrData (reqRecords req ! recidx)) (CHR '',''))) of
       Inl e \<Rightarrow> True | Inr x \<Rightarrow> x = []) \<longrightarrow>
    newNames w (snd (insertNS env dms ctx req recidx w)) = []) \<and>
   (\<forall>cfg. ContextConfig ctx = Ptr cfg \<longrightarrow>
      (WhichDomain cfg (RemoveLastDot env (rrData (reqRecords req ! recidx))) = [] \<longrightarrow>
       newNames w (snd (insertPTR env dms ctx req recidx w)) = [] \<and>
       newNames w (snd (insertSRV env dms ctx req recidx w)) = []) \<and>
      (list_all (\<lambda>n. WhichDomain cfg n = []) (SubdomainMatches env d) \<longrightarrow>
       newNames w (snd (findNamesAndAddresses env dms ctx d dm w)) = []))"
  by (simp add: noEmptyDomain_OnDNSRequest noEmptyDomain_processDNSRequest noEmptyDomain_refl
      noEmptyDomain_invoke noEmptyDomain_findNamesAndAddresses
      no_name_insertCNAME no_name_insertMX no_name_insertNS no_name_insertPTR no_name_insertSRV
      no_name_findNamesAndAddresses)

theorem no_empty_domain_name_event_witness:
  "(case EffectiveTLDPlusOne exampleEnv (RemoveLastDot exampleEnv (rrData localRecord)) of
      Inl e \<Rightarrow> True | Inr x \<Rightarrow> x = []) \<and>
   (case EffectiveTLDPlusOne exampleEnv (last (Split (rrData localRecord) (CHR '',''))) of
      Inl e \<Rightarrow> True | Inr x \<Rightarrow> x = []) \<and>
   ContextConfig exampleContext = Ptr exampleConfig \<and>
   WhichDomain exampleConfig (RemoveLastDot exampleEnv (rrData localRecord)) = [] \<and>
   list_all (\<lambda>n. WhichDomain exampleConfig n = []) (SubdomainMatches exampleEnv ''localhost'') \<and>
   newNames exampleWorld
     (snd (insertCNAME exampleEnv exampleService exampleContext (exampleRequest [localRecord]) 0
            exampleWorld)) = [] \<and>
   newNames exampleWorld
     (snd (insertMX exampleEnv exampleService exampleContext (exampleRequest [localRecord]) 0
            exampleWorld)) = [] \<and>
   newNames exampleWorld
     (snd (insertNS exampleEnv exampleService exampleContext (exampleRequest [localRecord]) 0
            exampleWorld)) = [] \<and>
   newNames exampleWorld
     (snd (insertPTR exampleEnv exampleService exampleContext (exampleRequest [localRecord]) 0
            exampleWorld)) = [] \<and>
   newNames exampleWorld
     (snd (insertSRV exampleEnv exampleService exampleContext (exampleRequest [localRecord]) 0
            exampleWorld)) = [] \<and>
   newNames exampleWorld
     (snd (findNamesAndAddresses exampleEnv exampleService exampleContext ''localhost''
            ''example.com'' exampleWorld)) = [] \<and>
   noEmptyDomain exampleWorld
     (admWorld (OnDNSRequest exampleEnv exampleService exampleContext (exampleRequest [localRecord])
                  [AcquireFailed, Acquired] exampleWorld))"
proof -
  have r: "reqRecords (exampleRequest [localRecord]) ! 0 = localRecord"
    by (simp add: exampleRequest_def)
  have h1: "(case EffectiveTLDPlusOne exampleEnv (RemoveLastDot exampleEnv (rrData localRecord)) of
      Inl e \<Rightarrow> True | Inr x \<Rightarrow> x = [])"
    by (simp add: exampleEnv_def localRecord_def)
  have h2: "(case EffectiveTLDPlusOne exampleEnv (last (Split (rrData localRecord) (CHR '',''))) of
      Inl e \<Rightarrow> True | Inr x \<Rightarrow> x = [])"
    by (simp add: exampleEnv_def localRecord_def)
  have h3: "ContextConfig exampleContext = Ptr exampleConfig"
    by (simp add: exampleContext_def)
  have h4: "WhichDomain exampleConfig (RemoveLastDot exampleEnv (rrData localRecord)) = []"
    by (simp add: exampleEnv_def exampleConfig_def localRecord_def)
  have h5: "list_all (\<lambda>n. WhichDomain exampleConfig n = []) (SubdomainMatches exampleEnv ''localhost'')"
    by (simp add: exampleEnv_def)
  show ?thesis
    using no_empty_domain_name_event [where w = exampleWorld and env = exampleEnv
        and dms = exampleService and ctx = exampleContext and req = "exampleRequest [localRecord]"
        and evs = "[AcquireFailed, Acquired]" and h = H_SRV and recidx = 0
        and d = "''localhost''" and dm = "''example.com''"]
      h1 h2 h3 h4 h5
    by (simp add: r)
qed

section \<open>A CNAME record is handled alone\<close>

lemmas example_defs = exampleEnv_def exampleConfig_def exampleContext_def exampleService_def
  exampleWorld_def exampleRequest_def cnameRecord_def addressRecord_def ptrRecord_def nsRecord_def
  mxRecord_def txtRecord_def localRecord_def ptrInScope_def apexRecord_def


lemma firstCNAME_less_iff: "(firstCNAME rs < length rs) = list_ex isCNAME rs"
  by (induction rs) auto

lemma firstCNAME_is_CNAME: "firstCNAME rs < length rs \<Longrightarrow> isCNAME (rs ! firstCNAME rs)"
  by (induction rs) (auto split: if_splits)

lemma before_firstCNAME: "j < firstCNAME rs \<Longrightarrow> \<not> isCNAME (rs ! j)"
proof (induction rs arbitrary: j)
  case Nil
  then show ?case by simp
next
  case (Cons r rs)
  then show ?case by (cases j) (auto split: if_splits)
qed

lemma processDNSRequest_cname:
  assumes "ContextEventBus ctx = Ptr b" and "firstCNAME (reqRecords req) < length (reqRecords req)"
  shows "processDNSRequest env dms ctx req w =
     (let rs = reqRecords req; k = firstCNAME rs;
          req' = req\<lparr>reqRecords := map normalizeRecord (take (Suc k) rs) @ drop (Suc k) rs\<rparr>
      in case insertCNAME env dms ctx req' k (setActive dms w) of
           (out, w') \<Rightarrow> (out, [(H_CNAME, k)], req', Release w'))"
  using assms by (simp add: processDNSRequest_def cnameLoop_0 Let_def split: prod.splits)


text \<open>
  Claim C2. For a request with at least one CNAME record (and the event bus in the
  context), \<open>processDNSRequest\<close> makes exactly one handler call: the CNAME handler, at the
  index of the first CNAME record in input order. Nothing else of the answer set is
  handled, whatever other records there are: the whole call is the heartbeat, that one
  call of \<open>insertCNAME\<close> and the release.
\<close>

theorem cname_exclusive:
  assumes "ContextEventBus ctx = Ptr b" and "list_ex isCNAME (reqRecords req)"
  shows "let rs = reqRecords req; k = firstCNAME rs;
             req' = req\<lparr>reqRecords := map normalizeRecord (take (Suc k) rs) @ drop (Suc k) rs\<rparr>
         in k < length rs \<and> isCNAME (rs ! k) \<and> (\<forall>j<k. \<not> isCNAME (rs ! j)) \<and>
            fst (snd (processDNSRequest env dms ctx req w)) = [(H_CNAME, k)] \<and>
            processDNSRequest env dms ctx req w =
              (case insertCNAME env dms ctx req' k (setActive dms w) of
                 (out, w') \<Rightarrow> (out, [(H_CNAME, k)], req', Release w'))"
proof -
  have k: "firstCNAME (reqRecords req) < length (reqRecords req)"
    using assms(2) by (simp add: firstCNAME_less_iff)
  show ?thesis
    using k firstCNAME_is_CNAME [OF k] before_firstCNAME [of _ "reqRecords req"]
      processDNSRequest_cname [OF assms(1) k, of env dms w]
    by (simp add: Let_def split: prod.splits)
qed


theorem cname_exclusive_witness:
  "ContextEventBus exampleContext = Ptr () \<and>
   list_ex isCNAME (reqRecords (exampleRequest [addressRecord, cnameRecord, addressRecord])) \<and>
   firstCNAME (reqRecords (exampleRequest [addressRecord, cnameRecord, addressRecord])) = 1 \<and>
   fst (snd (processDNSRequest exampleEnv exampleService exampleContext
              (exampleRequest [addressRecord, cnameRecord, addressRecord]) exampleWorld))
     = [(H_CNAME, 1)]"
proof -
  have h1: "ContextEventBus exampleContext = Ptr ()"
    by (simp add: exampleContext_def)
  have h2: "list_ex isCNAME (reqRecords (exampleRequest [addressRecord, cnameRecord, addressRecord]))"
    by (simp add: example_defs isCNAME_def uint16_def TypeCNAME_def)
  have k: "firstCNAME (reqRecords (exampleRequest [addressRecord, cnameRecord, addressRecord])) = 1"
    by (simp add: example_defs isCNAME_def uint16_def TypeCNAME_def)
  have c: "fst (snd (processDNSRequest exampleEnv exampleService exampleContext
                 (exampleRequest [addressRecord, cnameRecord, addressRecord]) exampleWorld))
     = [(H_CNAME, firstCNAME (reqRecords (exampleRequest [addressRecord, cnameRecord, addressRecord])))]"
    using cname_exclusive [OF h1 h2, of exampleEnv exampleService exampleWorld]
    unfolding Let_def by blast
  show ?thesis
    using c h1 h2 k by simp
qed

section \<open>What the first loop does to the records\<close>








section \<open>The PTR handler and the scope\<close>

lemma newNames_insertAll_event:
  "newNames w (setActive dms (Publish NewNameTopic p x (insertAll env f msg w))) = [(NewNameTopic, p, x)]"
  by (simp add: newNames_append [where new = "snd (graphInserts env f msg (sinks w)) @ [(NewNameTopic, p, x), (SetActiveTopic, PriorityCritical, PString (ServiceName dms))]"]
      published_insertAll isNewName_def)

lemma newNames_insertAll_quiet:
  "newNames w (setActive dms (insertAll env f msg w)) = []"
  by (simp add: newNames_append [where new = "snd (graphInserts env f msg (sinks w)) @ [(SetActiveTopic, PriorityCritical, PString (ServiceName dms))]"]
      published_insertAll isNewName_def)

text \<open>
  Claim C4, as amended. For a PTR record with a non-empty target (configuration and bus
  in the context), the scope check stands before the write and before the event. When
  the domain of the target (\<open>WhichDomain\<close> of the configuration, in lower case) is empty,
  the handler returns at once: no new-name request is published and no database receives
  the PTR fact. When it is not empty, every database receives the PTR fact and the
  new-name request for the target and that domain is published.
\<close>

theorem ptr_scope_gates_write_and_event:
  assumes "ContextConfig ctx = Ptr cfg" and "ContextEventBus ctx = Ptr b"
    and "recidx < length (reqRecords req)"
    and "RemoveLastDot env (rrData (reqRecords req ! recidx)) \<noteq> []"
  shows "let target = RemoveLastDot env (rrData (reqRecords req ! recidx));
             domain = ToLower (WhichDomain cfg target);
             w' = snd (insertPTR env dms ctx req recidx w)
         in fst (insertPTR env dms ctx req recidx w) = Returned \<and>
            (domain = [] \<longrightarrow> w' = w \<and> newNames w w' = [] \<and> sinks w' = sinks w) \<and>
            (domain \<noteq> [] \<longrightarrow>
               writtenToAll env (InsertPTR (reqName req) target (reqSource req) (reqTag req) (UUID cfg)) w w' \<and>
               newNames w w' = [(NewNameTopic, PriorityHigh, newName target domain requests_DNS (reqSource req))])"
  using assms
  by (simp add: insertPTR_def withConfigAndBus_def Let_def writtenToAll_def
      newNames_insertAll_event)


theorem ptr_scope_gates_write_and_event_witness:
  "ContextConfig exampleContext = Ptr exampleConfig \<and>
   ContextEventBus exampleContext = Ptr () \<and>
   (0::nat) < length (reqRecords (exampleRequest [ptrRecord, ptrInScope])) \<and>
   RemoveLastDot exampleEnv (rrData (reqRecords (exampleRequest [ptrRecord, ptrInScope]) ! 0))
     = ''host.elsewhere.org'' \<and>
   ToLower (WhichDomain exampleConfig ''host.elsewhere.org'') = [] \<and>
   snd (insertPTR exampleEnv exampleService exampleContext (exampleRequest [ptrRecord, ptrInScope]) 0
         exampleWorld) = exampleWorld \<and>
   (1::nat) < length (reqRecords (exampleRequest [ptrRecord, ptrInScope])) \<and>
   RemoveLastDot exampleEnv (rrData (reqRecords (exampleRequest [ptrRecord, ptrInScope]) ! 1))
     = ''host.example.com'' \<and>
   ToLower (WhichDomain exampleConfig ''host.example.com'') = ''example.com'' \<and>
   writtenToAll exampleEnv
     (InsertPTR (reqName (exampleRequest [ptrRecord, ptrInScope])) ''host.example.com''
        (reqSource (exampleRequest [ptrRecord, ptrInScope]))
        (reqTag (exampleRequest [ptrRecord, ptrInScope])) (UUID exampleConfig))
     exampleWorld
     (snd (insertPTR exampleEnv exampleService exampleContext (exampleRequest [ptrRecord, ptrInScope]) 1
            exampleWorld)) \<and>
   newNames exampleWorld
     (snd (insertPTR exampleEnv exampleService exampleContext (exampleRequest [ptrRecord, ptrInScope]) 1
            exampleWorld))
     = [(NewNameTopic, PriorityHigh,
         newName ''host.example.com'' ''example.com'' requests_DNS
           (reqSource (exampleRequest [ptrRecord, ptrInScope])))]"
proof -
  let ?req = "exampleRequest [ptrRecord, ptrInScope]"
  have cfg: "ContextConfig exampleContext = Ptr exampleConfig"
    and bus: "ContextEventBus exampleContext = Ptr ()"
    by (simp_all add: exampleContext_def)
  have i0: "(0::nat) < length (reqRecords ?req)" and i1: "(1::nat) < length (reqRecords ?req)"
    by (simp_all add: exampleRequest_def)
  have t0: "RemoveLastDot exampleEnv (rrData (reqRecords ?req ! 0)) = ''host.elsewhere.org''"
    and t1: "RemoveLastDot exampleEnv (rrData (reqRecords ?req ! 1)) = ''host.example.com''"
    by (simp_all add: example_defs)
  have d0: "ToLower (WhichDomain exampleConfig ''host.elsewhere.org'') = []"
    by (simp add: exampleConfig_def ToLower_def)
  have d1: "ToLower (WhichDomain exampleConfig ''host.example.com'') = ''example.com''"
    by (simp add: exampleConfig_def ToLower_def toLowerChar_def)
  have n0: "RemoveLastDot exampleEnv (rrData (reqRecords ?req ! 0)) \<noteq> []"
    and n1: "RemoveLastDot exampleEnv (rrData (reqRecords ?req ! 1)) \<noteq> []"
    unfolding t0 t1 by simp_all
  have c0: "snd (insertPTR exampleEnv exampleService exampleContext ?req 0 exampleWorld) = exampleWorld"
    using ptr_scope_gates_write_and_event [OF cfg bus i0 n0, of exampleService exampleWorld] d0
    unfolding Let_def t0 by blast
  have c1: "writtenToAll exampleEnv
       (InsertPTR (reqName ?req) ''host.example.com'' (reqSource ?req) (reqTag ?req) (UUID exampleConfig))
       exampleWorld (snd (insertPTR exampleEnv exampleService exampleContext ?req 1 exampleWorld)) \<and>
     newNames exampleWorld (snd (insertPTR exampleEnv exampleService exampleContext ?req 1 exampleWorld))
       = [(NewNameTopic, PriorityHigh,
           newName ''host.example.com'' ''example.com'' requests_DNS (reqSource ?req))]"
    using ptr_scope_gates_write_and_event [OF cfg bus i1 n1, of exampleService exampleWorld] d1
    unfolding Let_def t1 by simp
  show ?thesis
    using cfg bus i0 i1 t0 t1 d0 d1 c0 c1 by blast
qed

text \<open>
  The claim as it stands says that the PTR fact of an out-of-scope target is still
  written to all databases. It is not: the world is the one the handler started with.
\<close>

theorem ptr_out_of_scope_counterexample:
  "RemoveLastDot exampleEnv (rrData ptrRecord) = ''host.elsewhere.org'' \<and>
   WhichDomain exampleConfig ''host.elsewhere.org'' = [] \<and>
   insertPTR exampleEnv exampleService exampleContext (exampleRequest [ptrRecord]) 0 exampleWorld
     = (Returned, exampleWorld) \<and>
   \<not> writtenToAll exampleEnv
        (InsertPTR ''www.example.com'' ''host.elsewhere.org'' ''DNS'' DNS ''run-1'')
        exampleWorld
        (snd (insertPTR exampleEnv exampleService exampleContext (exampleRequest [ptrRecord]) 0
               exampleWorld))"
  by (simp add: example_defs insertPTR_def withConfigAndBus_def Let_def writtenToAll_def ToLower_def)


section \<open>The NS and the MX handler\<close>

text \<open>
  Claim C8. With configuration and bus in the context: the target of the NS handler is
  the last field of the record data split at \<open>,\<close>, the target of the MX handler is the
  record data through \<open>RemoveLastDot\<close>. When the target is empty or
  \<open>EffectiveTLDPlusOne\<close> answers with an error or the empty string, the handler leaves
  the world as it is: nothing written, nothing published. Otherwise every database
  receives the NS (MX) fact for the target, and the new-name requests published are
  exactly the one for the target and its domain (the answer of \<open>EffectiveTLDPlusOne\<close> in
  lower case) when the target differs from the domain, and none when they are equal.
\<close>

theorem ns_mx_handlers:
  assumes "ContextConfig ctx = Ptr cfg" and "ContextEventBus ctx = Ptr b"
    and "recidx < length (reqRecords req)"
  shows "let ns = last (Split (rrData (reqRecords req ! recidx)) (CHR '',''));
             mx = RemoveLastDot env (rrData (reqRecords req ! recidx));
             wn = snd (insertNS env dms ctx req recidx w);
             wm = snd (insertMX env dms ctx req recidx w)
         in fst (insertNS env dms ctx req recidx w) = Returned \<and>
            fst (insertMX env dms ctx req recidx w) = Returned \<and>
            (ns = [] \<or> (case EffectiveTLDPlusOne env ns of Inl e \<Rightarrow> True | Inr x \<Rightarrow> x = []) \<longrightarrow> wn = w) \<and>
            (mx = [] \<or> (case EffectiveTLDPlusOne env mx of Inl e \<Rightarrow> True | Inr x \<Rightarrow> x = []) \<longrightarrow> wm = w) \<and>
            (\<forall>x. ns \<noteq> [] \<and> EffectiveTLDPlusOne env ns = Inr x \<and> x \<noteq> [] \<longrightarrow>
               writtenToAll env (InsertNS (reqName req) ns (reqSource req) (reqTag req) (UUID cfg)) w wn \<and>
               newNames w wn =
                 (if ns \<noteq> ToLower x
                  then [(NewNameTopic, PriorityHigh, newName ns (ToLower x) requests_DNS ''DNS'')]
                  else [])) \<and>
            (\<forall>x. mx \<noteq> [] \<and> EffectiveTLDPlusOne env mx = Inr x \<and> x \<noteq> [] \<longrightarrow>
               writtenToAll env (InsertMX (reqName req) mx (reqSource req) (reqTag req) (UUID cfg)) w wm \<and>
               newNames w wm =
                 (if mx \<noteq> ToLower x
                  then [(NewNameTopic, PriorityHigh, newName mx (ToLower x) requests_DNS ''DNS'')]
                  else []))"
proof -
  have ns: "fst (insertNS env dms ctx req recidx w) = Returned"
    using assms by (simp add: insertNS_def withConfigAndBus_def Let_def split: sum.splits)
  have mx: "fst (insertMX env dms ctx req recidx w) = Returned"
    using assms by (simp add: insertMX_def withConfigAndBus_def Let_def split: sum.splits)
  have ns0: "last (Split (rrData (reqRecords req ! recidx)) (CHR '','')) = [] \<or>
      (case EffectiveTLDPlusOne env (last (Split (rrData (reqRecords req ! recidx)) (CHR '','')))
       of Inl e \<Rightarrow> True | Inr x \<Rightarrow> x = []) \<Longrightarrow> snd (insertNS env dms ctx req recidx w) = w"
    using assms
    by (auto simp: insertNS_def withConfigAndBus_def Let_def last_conv_nth ToLower_Nil_iff
        split: sum.splits)
  have mx0: "RemoveLastDot env (rrData (reqRecords req ! recidx)) = [] \<or>
      (case EffectiveTLDPlusOne env (RemoveLastDot env (rrData (reqRecords req ! recidx)))
       of Inl e \<Rightarrow> True | Inr x \<Rightarrow> x = []) \<Longrightarrow> snd (insertMX env dms ctx req recidx w) = w"
    using assms
    by (auto simp: insertMX_def withConfigAndBus_def Let_def ToLower_Nil_iff split: sum.splits)
  have ns1: "\<And>x. last (Split (rrData (reqRecords req ! recidx)) (CHR '','')) \<noteq> [] \<Longrightarrow>
      EffectiveTLDPlusOne env (last (Split (rrData (reqRecords req ! recidx)) (CHR '',''))) = Inr x \<Longrightarrow>
      x \<noteq> [] \<Longrightarrow>
      writtenToAll env (InsertNS (reqName req) (last (Split (rrData (reqRecords req ! recidx)) (CHR '','')))
         (reqSource req) (reqTag req) (UUID cfg)) w (snd (insertNS env dms ctx req recidx w)) \<and>
      newNames w (snd (insertNS env dms ctx req recidx w)) =
        (if last (Split (rrData (reqRecords req ! recidx)) (CHR '','')) \<noteq> ToLower x
         then [(NewNameTopic, PriorityHigh,
                newName (last (Split (rrData (reqRecords req ! recidx)) (CHR '',''))) (ToLower x)
                  requests_DNS ''DNS'')]
         else [])"
    using assms
    by (simp add: insertNS_def withConfigAndBus_def Let_def last_conv_nth ToLower_Nil_iff
        writtenToAll_def newNames_insertAll_event newNames_insertAll_quiet)
  have mx1: "\<And>x. RemoveLastDot env (rrData (reqRecords req ! recidx)) \<noteq> [] \<Longrightarrow>
      EffectiveTLDPlusOne env (RemoveLastDot env (rrData (reqRecords req ! recidx))) = Inr x \<Longrightarrow>
      x \<noteq> [] \<Longrightarrow>
      writtenToAll env (InsertMX (reqName req) (RemoveLastDot env (rrData (reqRecords req ! recidx)))
         (reqSource req) (reqTag req) (UUID cfg)) w (snd (insertMX env dms ctx req recidx w)) \<and>
      newNames w (snd (insertMX env dms ctx req recidx w)) =
        (if RemoveLastDot env (rrData (reqRecords req ! recidx)) \<noteq> ToLower x
         then [(NewNameTopic, PriorityHigh,
                newName (RemoveLastDot env (rrData (reqRecords req ! recidx))) (ToLower x)
                  requests_DNS ''DNS'')]
         else [])"
    using assms
    by (simp add: insertMX_def withConfigAndBus_def Let_def ToLower_Nil_iff
        writtenToAll_def newNames_insertAll_event newNames_insertAll_quiet)
  show ?thesis
    unfolding Let_def using ns mx ns0 mx0 ns1 mx1 by blast
qed

theorem ns_mx_handlers_witness:
  "ContextConfig exampleContext = Ptr exampleConfig \<and>
   ContextEventBus exampleContext = Ptr () \<and>
   length (reqRecords (exampleRequest [nsRecord, apexRecord, mxRecord, localRecord])) = 4 \<and>
   last (Split (rrData nsRecord) (CHR '','')) = ''ns1.example.com'' \<and>
   EffectiveTLDPlusOne exampleEnv ''ns1.example.com'' = Inr ''example.com'' \<and>
   newNames exampleWorld
     (snd (insertNS exampleEnv exampleService exampleContext
            (exampleRequest [nsRecord, apexRecord, mxRecord, localRecord]) 0 exampleWorld))
     = [(NewNameTopic, PriorityHigh, newName ''ns1.example.com'' ''example.com'' requests_DNS ''DNS'')] \<and>
   last (Split (rrData apexRecord) (CHR '','')) = ''example.com'' \<and>
   RemoveLastDot exampleEnv (rrData apexRecord) = ''example.com'' \<and>
   EffectiveTLDPlusOne exampleEnv ''example.com'' = Inr ''example.com'' \<and>
   newNames exampleWorld
     (snd (insertNS exampleEnv exampleService exampleContext
            (exampleRequest [nsRecord, apexRecord, mxRecord, localRecord]) 1 exampleWorld)) = [] \<and>
   newNames exampleWorld
     (snd (insertMX exampleEnv exampleService exampleContext
            (exampleRequest [nsRecord, apexRecord, mxRecord, localRecord]) 1 exampleWorld)) = [] \<and>
   writtenToAll exampleEnv
     (InsertNS ''www.example.com'' ''example.com'' ''DNS'' DNS ''run-1'') exampleWorld
     (snd (insertNS exampleEnv exampleService exampleContext
            (exampleRequest [nsRecord, apexRecord, mxRecord, localRecord]) 1 exampleWorld)) \<and>
   RemoveLastDot exampleEnv (rrData mxRecord) = ''mail.example.com'' \<and>
   EffectiveTLDPlusOne exampleEnv ''mail.example.com'' = Inr ''example.com'' \<and>
   newNames exampleWorld
     (snd (insertMX exampleEnv exampleService exampleContext
            (exampleRequest [nsRecord, apexRecord, mxRecord, localRecord]) 2 exampleWorld))
     = [(NewNameTopic, PriorityHigh, newName ''mail.example.com'' ''example.com'' requests_DNS ''DNS'')] \<and>
   last (Split (rrData localRecord) (CHR '','')) = ''localhost'' \<and>
   RemoveLastDot exampleEnv (rrData localRecord) = ''localhost'' \<and>
   EffectiveTLDPlusOne exampleEnv ''localhost'' = Inl (Error ''publicsuffix: cannot derive eTLD+1'') \<and>
   snd (insertNS exampleEnv exampleService exampleContext
         (exampleRequest [nsRecord, apexRecord, mxRecord, localRecord]) 3 exampleWorld) = exampleWorld \<and>
   snd (insertMX exampleEnv exampleService exampleContext
         (exampleRequest [nsRecord, apexRecord, mxRecord, localRecord]) 3 exampleWorld) = exampleWorld"
proof -
  let ?req = "exampleRequest [nsRecord, apexRecord, mxRecord, localRecord]"
  have cfg: "ContextConfig exampleContext = Ptr exampleConfig"
    and bus: "ContextEventBus exampleContext = Ptr ()"
    by (simp_all add: exampleContext_def)
  have len: "length (reqRecords ?req) = 4" by (simp add: exampleRequest_def)
  have i: "0 < length (reqRecords ?req)" "1 < length (reqRecords ?req)"
    "2 < length (reqRecords ?req)" "3 < length (reqRecords ?req)"
    unfolding len by simp_all
  have r: "reqRecords ?req ! 0 = nsRecord" "reqRecords ?req ! 1 = apexRecord"
    "reqRecords ?req ! 2 = mxRecord" "reqRecords ?req ! 3 = localRecord"
    by (simp_all add: exampleRequest_def)
  have q: "reqName ?req = ''www.example.com''" "reqSource ?req = ''DNS''" "reqTag ?req = DNS"
    "UUID exampleConfig = ''run-1''"
    by (simp_all add: exampleRequest_def exampleConfig_def)
  have ns0: "last (Split (rrData nsRecord) (CHR '','')) = ''ns1.example.com''"
    and ns1: "last (Split (rrData apexRecord) (CHR '','')) = ''example.com''"
    and ns3: "last (Split (rrData localRecord) (CHR '','')) = ''localhost''"
    by (simp_all add: nsRecord_def apexRecord_def localRecord_def)
  have mx1: "RemoveLastDot exampleEnv (rrData apexRecord) = ''example.com''"
    and mx2: "RemoveLastDot exampleEnv (rrData mxRecord) = ''mail.example.com''"
    and mx3: "RemoveLastDot exampleEnv (rrData localRecord) = ''localhost''"
    by (simp_all add: exampleEnv_def apexRecord_def mxRecord_def localRecord_def)
  have e: "EffectiveTLDPlusOne exampleEnv ''ns1.example.com'' = Inr ''example.com''"
    "EffectiveTLDPlusOne exampleEnv ''example.com'' = Inr ''example.com''"
    "EffectiveTLDPlusOne exampleEnv ''mail.example.com'' = Inr ''example.com''"
    "EffectiveTLDPlusOne exampleEnv ''localhost'' = Inl (Error ''publicsuffix: cannot derive eTLD+1'')"
    by (simp_all add: exampleEnv_def)
  have low: "ToLower ''example.com'' = ''example.com''"
    by (simp add: ToLower_def toLowerChar_def)
  have c0: "newNames exampleWorld (snd (insertNS exampleEnv exampleService exampleContext ?req 0 exampleWorld))
     = [(NewNameTopic, PriorityHigh, newName ''ns1.example.com'' ''example.com'' requests_DNS ''DNS'')]"
    using ns_mx_handlers [OF cfg bus i(1), of exampleEnv exampleService exampleWorld]
    unfolding Let_def r ns0 by (simp add: e low)
  have c1: "newNames exampleWorld (snd (insertNS exampleEnv exampleService exampleContext ?req 1 exampleWorld)) = [] \<and>
     newNames exampleWorld (snd (insertMX exampleEnv exampleService exampleContext ?req 1 exampleWorld)) = [] \<and>
     writtenToAll exampleEnv (InsertNS ''www.example.com'' ''example.com'' ''DNS'' DNS ''run-1'')
       exampleWorld (snd (insertNS exampleEnv exampleService exampleContext ?req 1 exampleWorld))"
    using ns_mx_handlers [OF cfg bus i(2), of exampleEnv exampleService exampleWorld]
    unfolding Let_def r ns1 mx1 q by (simp add: e low)
  have c2: "newNames exampleWorld (snd (insertMX exampleEnv exampleService exampleContext ?req 2 exampleWorld))
     = [(NewNameTopic, PriorityHigh, newName ''mail.example.com'' ''example.com'' requests_DNS ''DNS'')]"
    using ns_mx_handlers [OF cfg bus i(3), of exampleEnv exampleService exampleWorld]
    unfolding Let_def r mx2 by (simp add: e low)
  have c3: "snd (insertNS exampleEnv exampleService exampleContext ?req 3 exampleWorld) = exampleWorld \<and>
     snd (insertMX exampleEnv exampleService exampleContext ?req 3 exampleWorld) = exampleWorld"
    using ns_mx_handlers [OF cfg bus i(4), of exampleEnv exampleService exampleWorld]
    unfolding Let_def r ns3 mx3 by (simp add: e)
  show ?thesis
    using cfg bus len ns0 ns1 ns3 mx1 mx2 mx3 e c0 c1 c2 c3 by blast
qed

section \<open>A failing database is only logged\<close>

lemma neverFailing_simps [simp]:
  "RemoveLastDot (neverFailing env) = RemoveLastDot env"
  "EffectiveTLDPlusOne (neverFailing env) = EffectiveTLDPlusOne env"
  "IPv4Matches (neverFailing env) = IPv4Matches env"
  "SubdomainMatches (neverFailing env) = SubdomainMatches env"
  "GraphString (neverFailing env) = GraphString env"
  "Insert (neverFailing env) f g = (None, snd (Insert env f g))"
  by (simp_all add: neverFailing_def)




lemma filter_notLog_logs [simp]: "filter notLog (snd (graphInserts env f msg gs)) = []"
  using logs_graphInserts [of env f msg gs]
  by (auto simp: filter_empty_conv list_all_iff notLog_def)





lemma failedTo_neverFailing [simp]: "failedTo (neverFailing env) = failedTo env"
  by (intro ext) (simp add: failedTo_def)






lemma insertSPF_is_insertTXT: "insertSPF env dms ctx req i w = insertTXT env dms ctx req i w"
  by (simp add: insertTXT_def insertSPF_def)














text \<open>Three databases, the second one down: the other two hold the fact, the failure is
  logged, the new name is published, and the handler returns.\<close>

lemma three_sinks_one_down:
  "fst (insertCNAME exampleEnv exampleService exampleContext (exampleRequest [cnameRecord]) 0
         exampleWorld) = Returned \<and>
   map graphFacts
     (sinks (snd (insertCNAME exampleEnv exampleService exampleContext (exampleRequest [cnameRecord]) 0
                   exampleWorld))) =
     [[InsertCNAME ''www.example.com'' ''edge.cdn.example.net'' ''DNS'' DNS ''run-1''],
      [],
      [InsertCNAME ''www.example.com'' ''edge.cdn.example.net'' ''DNS'' DNS ''run-1'']] \<and>
   published (snd (insertCNAME exampleEnv exampleService exampleContext (exampleRequest [cnameRecord]) 0
                    exampleWorld)) =
     [(LogTopic, PriorityHigh, PString ''g2 failed to insert CNAME: connection refused''),
      (NewNameTopic, PriorityHigh, newName ''edge.cdn.example.net'' ''example.net'' DNS ''DNS''),
      (SetActiveTopic, PriorityCritical, PString ''Data Manager'')]"
  by code_simp

section \<open>The delays of the admission loop\<close>

lemma nthDelay_delays: "nthDelay n = delays ! min n maxIdx"
  by (simp add: nthDelay_def delays_def maxIdx_def)

lemma sorted_delays: "sorted delays"
  by (simp add: delays_def)

lemma nthDelay_mono: "n \<le> m \<Longrightarrow> nthDelay n \<le> nthDelay m"
  unfolding nthDelay_delays
  by (rule sorted_nth_mono [OF sorted_delays]) (simp_all add: delays_def maxIdx_def)

lemma nthDelay_le: "nthDelay n \<le> 500"
proof -
  have "delays ! min n maxIdx \<le> delays ! 6"
    by (rule sorted_nth_mono [OF sorted_delays]) (simp_all add: delays_def maxIdx_def)
  then show ?thesis by (simp add: nthDelay_delays delays_def)
qed

lemma admissionLoop_sleeps:
  "curIdx \<le> maxIdx \<Longrightarrow>
   admSleeps (admissionLoop env dms ctx req evs curIdx sl w) =
     sl @ map (\<lambda>n. nthDelay (curIdx + n)) [0..<failedAttempts evs]"
proof (induction evs arbitrary: curIdx sl w)
  case Nil
  then show ?case by simp
next
  case (Cons e evs)
  show ?case
  proof (cases e)
    case QuitClosed
    then show ?thesis by simp
  next
    case TickFired
    then show ?thesis using Cons by simp
  next
    case AcquireFailed
    have lt: "curIdx < length delays" using Cons.prems by (simp add: delays_def maxIdx_def)
    have d: "delays ! curIdx = nthDelay curIdx"
      using Cons.prems by (simp add: nthDelay_delays min_def)
    show ?thesis
    proof (cases "curIdx < maxIdx")
      case True
      then have "Suc curIdx \<le> maxIdx" by simp
      from Cons.IH [OF this] True lt AcquireFailed d show ?thesis
        by (simp add: map_upt_Suc del: upt_Suc)
    next
      case False
      then have c: "curIdx = maxIdx" using Cons.prems by simp
      have cap: "\<And>n. nthDelay (maxIdx + n) = 500"
        by (simp add: nthDelay_def maxIdx_def)
      have cap0: "nthDelay maxIdx = 500" using cap [of 0] by simp
      from Cons.IH [OF Cons.prems] False lt AcquireFailed d show ?thesis
        unfolding c by (simp add: cap cap0 map_upt_Suc del: upt_Suc)
    qed
  next
    case Acquired
    then show ?thesis by (simp split: prod.splits)
  qed
qed

lemma admissionLoop_reset:
  "admitted evs \<Longrightarrow> curIdx \<le> maxIdx \<Longrightarrow>
   admCurIdx (admissionLoop env dms ctx req evs curIdx sl w) = 0"
proof (induction evs arbitrary: curIdx sl w)
  case Nil
  then show ?case by simp
next
  case (Cons e evs)
  then show ?case
    by (cases e) (auto simp: delays_def maxIdx_def split: prod.splits)
qed

text \<open>
  Claim C6. For one submission (the event bus in the context), the sleeps of the
  admission loop are, in order, \<open>delay[min(n, 6)]\<close> milliseconds for \<open>n = 0, 1, ...\<close> with
  \<open>delay = [25, 50, 75, 100, 150, 250, 500]\<close>, one for each failed acquisition: they
  never decrease and none exceeds 500. When the loop ends with the acquisition, the
  counter \<open>curIdx\<close> is 0.
\<close>

theorem backoff_delays:
  assumes "ContextEventBus ctx = Ptr b"
  shows "let r = OnDNSRequest env dms ctx req evs w in
           admSleeps r = map nthDelay [0..<failedAttempts evs] \<and>
           sorted (admSleeps r) \<and>
           list_all (\<lambda>d. d \<le> 500) (admSleeps r) \<and>
           (admitted evs \<longrightarrow> admCurIdx r = 0)"
proof -
  have s: "admSleeps (OnDNSRequest env dms ctx req evs w) = map nthDelay [0..<failedAttempts evs]"
    using assms admissionLoop_sleeps [of 0 env dms ctx req evs "[]" w]
    by (simp add: OnDNSRequest_def)
  have "sorted (map nthDelay [0..<failedAttempts evs])"
    by (simp add: sorted_iff_nth_mono nthDelay_mono)
  moreover have "list_all (\<lambda>d. d \<le> 500) (map nthDelay [0..<failedAttempts evs])"
    by (simp add: list_all_iff nthDelay_le)
  moreover have "admitted evs \<longrightarrow> admCurIdx (OnDNSRequest env dms ctx req evs w) = 0"
    using assms admissionLoop_reset [of evs 0 env dms ctx req "[]" w]
    by (simp add: OnDNSRequest_def)
  ultimately show ?thesis by (simp add: Let_def s)
qed

theorem backoff_delays_witness:
  "ContextEventBus exampleContext = Ptr () \<and>
   admitted [AcquireFailed, AcquireFailed, TickFired, AcquireFailed, AcquireFailed, AcquireFailed,
             AcquireFailed, AcquireFailed, AcquireFailed, AcquireFailed, Acquired] \<and>
   admSleeps (OnDNSRequest exampleEnv exampleService exampleContext (exampleRequest [cnameRecord])
     [AcquireFailed, AcquireFailed, TickFired, AcquireFailed, AcquireFailed, AcquireFailed,
      AcquireFailed, AcquireFailed, AcquireFailed, AcquireFailed, Acquired] exampleWorld)
     = [25, 50, 75, 100, 150, 250, 500, 500, 500] \<and>
   admCurIdx (OnDNSRequest exampleEnv exampleService exampleContext (exampleRequest [cnameRecord])
     [AcquireFailed, AcquireFailed, TickFired, AcquireFailed, AcquireFailed, AcquireFailed,
      AcquireFailed, AcquireFailed, AcquireFailed, AcquireFailed, Acquired] exampleWorld) = 0"
proof -
  let ?evs = "[AcquireFailed, AcquireFailed, TickFired, AcquireFailed, AcquireFailed, AcquireFailed,
               AcquireFailed, AcquireFailed, AcquireFailed, AcquireFailed, Acquired]"
  have bus: "ContextEventBus exampleContext = Ptr ()" by (simp add: exampleContext_def)
  have a: "admitted ?evs" by simp
  have n: "map nthDelay [0..<failedAttempts ?evs] = [25, 50, 75, 100, 150, 250, 500, 500, 500]"
    by code_simp
  have c: "admSleeps (OnDNSRequest exampleEnv exampleService exampleContext (exampleRequest [cnameRecord]) ?evs exampleWorld)
        = map nthDelay [0..<failedAttempts ?evs] \<and>
      (admitted ?evs \<longrightarrow>
       admCurIdx (OnDNSRequest exampleEnv exampleService exampleContext (exampleRequest [cnameRecord]) ?evs exampleWorld) = 0)"
    using backoff_delays [OF bus, of exampleEnv exampleService "exampleRequest [cnameRecord]" ?evs exampleWorld]
    unfolding Let_def by blast
  show ?thesis using bus a c unfolding n by blast
qed

section \<open>A dependency that the context does not hold\<close>


lemma panics_without_config: "fst (invoke h env dms (ctx\<lparr>ContextConfig := NoValue\<rparr>) req i w) = Panicked"
  by (cases h)
     (simp_all add: insertCNAME_def insertA_def insertAAAA_def insertPTR_def insertSRV_def
        insertNS_def insertMX_def insertTXT_def insertSPF_def withConfigAndBus_def)

text \<open>
  Claim C5 says that every entry point returns silently when the event bus or the
  configuration is absent from the context. The nil tests of the source come after the
  type assertions \<^verbatim>\<open>ctx.Value(key).(*T)\<close>, and these panic when the context holds no value
  under the key. So for every input: without a value for the bus, \<open>OnDNSRequest\<close> and
  \<open>processDNSRequest\<close> panic; without a value for the configuration, every handler,
  the text miner and (for a request with address, prefix and description)
  \<open>OnASNRequest\<close> panic.
\<close>

theorem missing_dependency_panics:
  "admOutcome (OnDNSRequest env dms (ctx\<lparr>ContextEventBus := NoValue\<rparr>) req evs w) = Some Panicked \<and>
   fst (processDNSRequest env dms (ctx\<lparr>ContextEventBus := NoValue\<rparr>) req w) = Panicked \<and>
   fst (invoke h env dms (ctx\<lparr>ContextConfig := NoValue\<rparr>) req i w) = Panicked \<and>
   fst (findNamesAndAddresses env dms (ctx\<lparr>ContextConfig := NoValue\<rparr>) d dm w) = Panicked \<and>
   fst (OnASNRequest env dms (ctx\<lparr>ContextConfig := NoValue\<rparr>)
          (asn\<lparr>asnAddress := ''192.0.2.7'', asnPrefix := ''192.0.2.0/24'',
               asnDescription := ''EXAMPLE''\<rparr>) w) = Panicked"
  by (simp add: OnDNSRequest_def processDNSRequest_def panics_without_config
      findNamesAndAddresses_def OnASNRequest_def withConfigAndBus_def)


text \<open>What the nil tests do catch is a nil pointer stored in the context: then the
  handlers return and change nothing.\<close>

lemma nil_dependency_returns:
  assumes "ContextConfig ctx \<noteq> NoValue" and "ContextEventBus ctx \<noteq> NoValue"
    and "ContextConfig ctx = NilPtr \<or> ContextEventBus ctx = NilPtr"
    and "i < length (reqRecords req)"
  shows "invoke h env dms ctx req i w = (Returned, w)"
proof -
  have wcb: "\<And>body. withConfigAndBus ctx w body = (Returned, w)"
    using assms(1-3)
    by (cases "ContextConfig ctx"; cases "ContextEventBus ctx") (simp_all add: withConfigAndBus_def)
  have tx: "insertTXT env dms ctx req i w = (Returned, w)"
    using assms(1,4) wcb
    by (cases "ContextConfig ctx") (simp_all add: insertTXT_def findNamesAndAddresses_def)
  show ?thesis
    using wcb tx
    by (cases h)
       (simp_all add: insertCNAME_def insertA_def insertAAAA_def insertPTR_def insertSRV_def
          insertNS_def insertMX_def insertSPF_is_insertTXT)
qed

lemma nil_bus_returns:
  "ContextEventBus ctx = NilPtr \<Longrightarrow>
   admOutcome (OnDNSRequest env dms ctx req evs w) = Some Returned \<and>
   admWorld (OnDNSRequest env dms ctx req evs w) = w"
  by (simp add: OnDNSRequest_def)


end
